theory Spec2Isabelle
  imports Complex_Main "HOL-Library.AList"
begin

section \<open>Go values, maps and errors\<close>

text \<open>
  A value of Go's \<^verbatim>\<open>interface{}\<close> as the handlers meet it: what \<^verbatim>\<open>encoding/json\<close>
  decodes into (nil, bool, float64, string, slice, string-keyed map) and the \<^verbatim>\<open>int\<close>
  that \<^verbatim>\<open>validateParameterValue\<close> also switches on. A float64 is modelled by the real
  number it denotes. A map value is an association list read with \<open>map_of\<close>.
\<close>

datatype gvalue =
    VNil
  | VBool bool
  | VFloat real
  | VInt int
  | VString string
  | VArray "gvalue list"
  | VObject "(string \<times> gvalue) list"

text \<open>
  A \<^verbatim>\<open>map[string]interface{}\<close>: \<open>None\<close> is the nil map (what \<^verbatim>\<open>tools/call\<close> passes when
  the request has no \<^verbatim>\<open>arguments\<close>), \<open>Some kvs\<close> an allocated one. Reading a nil map
  finds nothing; writing to it panics.
\<close>

type_synonym gomap = "(string \<times> gvalue) list option"

datatype error = Error string | Panic string

definition map_index :: "gomap \<Rightarrow> string \<Rightarrow> gvalue option" where
  "map_index m k = (case m of None \<Rightarrow> None | Some kvs \<Rightarrow> map_of kvs k)"

definition map_len :: "gomap \<Rightarrow> nat" where
  "map_len m = (case m of None \<Rightarrow> 0 | Some kvs \<Rightarrow> length kvs)"

definition map_assign :: "gomap \<Rightarrow> string \<Rightarrow> gvalue \<Rightarrow> error + gomap" where
  "map_assign m k v =
     (case m of
        None \<Rightarrow> Inl (Panic ''assignment to entry in nil map'')
      | Some kvs \<Rightarrow> Inr (Some (AList.update k v kvs)))"

section \<open>Strings and formatting\<close>

fun has_prefix :: "string \<Rightarrow> string \<Rightarrow> bool" where
  "has_prefix s [] = True"
| "has_prefix [] (p # ps) = False"
| "has_prefix (c # s) (p # ps) = (c = p \<and> has_prefix s ps)"

text \<open>\<^verbatim>\<open>strings.Contains\<close>.\<close>

fun strings_Contains :: "string \<Rightarrow> string \<Rightarrow> bool" where
  "strings_Contains [] sub = (sub = [])"
| "strings_Contains (c # s) sub = (has_prefix (c # s) sub \<or> strings_Contains s sub)"

text \<open>
  \<^verbatim>\<open>strings.ToUpper\<close> on the ASCII letters. No letter outside ASCII has \<^verbatim>\<open>G\<close>, \<^verbatim>\<open>E\<close> or
  \<^verbatim>\<open>T\<close> as its upper case, so the comparison with \<^verbatim>\<open>"GET"\<close> is decided by this part.
\<close>

definition upper_char :: "char \<Rightarrow> char" where
  "upper_char c =
     (case map_of (zip ''abcdefghijklmnopqrstuvwxyz'' ''ABCDEFGHIJKLMNOPQRSTUVWXYZ'') c of
        Some u \<Rightarrow> u
      | None \<Rightarrow> c)"

definition strings_ToUpper :: "string \<Rightarrow> string" where
  "strings_ToUpper s = map upper_char s"

text \<open>The verb \<^verbatim>\<open>%d\<close>.\<close>

fun decimal :: "nat \<Rightarrow> string" where
  "decimal n =
     (if n < 10 then [''0123456789'' ! n] else decimal (n div 10) @ [''0123456789'' ! (n mod 10)])"

definition Itoa :: "int \<Rightarrow> string" where
  "Itoa i = (if i < 0 then CHR ''-'' # decimal (nat (- i)) else decimal (nat i))"

text \<open>The verb \<^verbatim>\<open>%T\<close> on the values above.\<close>

fun typeName :: "gvalue \<Rightarrow> string" where
  "typeName VNil = ''<nil>''"
| "typeName (VBool b) = ''bool''"
| "typeName (VFloat x) = ''float64''"
| "typeName (VInt i) = ''int''"
| "typeName (VString s) = ''string''"
| "typeName (VArray xs) = ''[]interface {}''"
| "typeName (VObject kvs) = ''map[string]interface {}''"

text \<open>The verb \<^verbatim>\<open>%v\<close> on a \<^verbatim>\<open>[]string\<close>: the elements between brackets, a space apart.\<close>

fun join_space :: "string list \<Rightarrow> string" where
  "join_space [] = []"
| "join_space [x] = x"
| "join_space (x # y # ys) = x @ '' '' @ join_space (y # ys)"

definition Sprint_strings :: "string list \<Rightarrow> string" where
  "Sprint_strings xs = ''['' @ join_space xs @ '']''"

section \<open>The standard library and the environment\<close>

text \<open>
  What the handlers call outside this repository, as parameters: the process environment,
  \<^verbatim>\<open>text/template\<close>, \<^verbatim>\<open>net/url\<close>, \<^verbatim>\<open>encoding/json\<close>, \<^verbatim>\<open>fmt\<close>, \<^verbatim>\<open>strconv\<close>, \<^verbatim>\<open>regexp\<close> and
  \<^verbatim>\<open>net/http\<close>. A fallible call returns \<open>Inl\<close> with the error's text. Every theorem below
  holds for whatever these functions compute.
\<close>

type_synonym Values = "(string \<times> string list) list"

record URL =
  url_Location :: string
  url_Query :: Values

record platform =
  os_Getenv :: "string \<Rightarrow> string"
  template_Parse :: "string \<Rightarrow> string option"
  template_Execute :: "string \<Rightarrow> gomap \<Rightarrow> string + string"
  url_Parse :: "string \<Rightarrow> string + URL"
  json_Marshal :: "gomap \<Rightarrow> string + string"
  json_MarshalIndent :: "gvalue \<Rightarrow> string + string"
  json_Unmarshal :: "string \<Rightarrow> string + gvalue"
  Sprint_v :: "gvalue \<Rightarrow> string"
  Sprint_f :: "real \<Rightarrow> string"
  strconv_ParseFloat :: "string \<Rightarrow> string + real"
  regexp_MatchString :: "string \<Rightarrow> string \<Rightarrow> string + bool"
  http_NewRequest :: "string \<Rightarrow> URL \<Rightarrow> string option"
  CanonicalHeaderKey :: "string \<Rightarrow> string"
  basicAuth :: "string \<Rightarrow> string \<Rightarrow> string"

section \<open>Configuration (internal/config/types.go)\<close>

record ParameterValidation =
  MinLength :: "int option"
  MaxLength :: "int option"
  Pattern :: "string option"
  MinValue :: "real option"
  MaxValue :: "real option"
  Enum :: "string list"

record ParameterConfig =
  param_Name :: string
  param_Type :: string
  param_Description :: string
  param_Required :: bool
  param_Default :: gvalue
  param_Validation :: "ParameterValidation option"

record AuthConfig =
  auth_Type :: string
  auth_Token :: string
  auth_Username :: string
  auth_Password :: string
  auth_Headers :: "(string \<times> string) list"
  auth_EnvVar :: string

record ValidationConfig =
  StatusCodes :: "int list"
  RequiredFields :: "string list"

record ToolConfig =
  tool_Name :: string
  tool_Description :: string
  tool_Endpoint :: string
  tool_Method :: string
  tool_Headers :: "(string \<times> string) list"
  tool_QueryParams :: "(string \<times> string) list"
  tool_BodyTemplate :: string
  tool_ContentType :: string
  tool_Parameters :: "ParameterConfig list"
  tool_ReturnType :: string
  tool_Retries :: int
  tool_Auth :: "AuthConfig option"
  tool_Validation :: "ValidationConfig option"

section \<open>Parameter validation (ToolHandler)\<close>

text \<open>
  \<^verbatim>\<open>validateParameterValue\<close>: \<open>None\<close> is the nil error, \<open>Some msg\<close> an error with that
  text. The checks run in the order of the source; a type other than the five named ones
  is not checked at all.
\<close>

definition validateParameterValue :: "platform \<Rightarrow> ParameterConfig \<Rightarrow> gvalue \<Rightarrow> string option" where
  "validateParameterValue P param v =
     (if param_Type param = ''string'' then
        (case v of
           VString str \<Rightarrow>
             (case param_Validation param of
                None \<Rightarrow> None
              | Some pv \<Rightarrow>
                  (case (case MinLength pv of
                           Some n \<Rightarrow> if int (length str) < n
                                     then Some (''string too short, minimum length is '' @ Itoa n) else None
                         | None \<Rightarrow> None) of
                     Some e \<Rightarrow> Some e
                   | None \<Rightarrow>
                  (case (case MaxLength pv of
                           Some n \<Rightarrow> if int (length str) > n
                                     then Some (''string too long, maximum length is '' @ Itoa n) else None
                         | None \<Rightarrow> None) of
                     Some e \<Rightarrow> Some e
                   | None \<Rightarrow>
                  (case (case Pattern pv of
                           Some pat \<Rightarrow>
                             (case regexp_MatchString P pat str of
                                Inl err \<Rightarrow> Some (''invalid pattern: '' @ err)
                              | Inr matched \<Rightarrow>
                                  if \<not> matched then Some (''string does not match pattern '' @ pat)
                                  else None)
                         | None \<Rightarrow> None) of
                     Some e \<Rightarrow> Some e
                   | None \<Rightarrow>
                       if Enum pv \<noteq> [] \<and> str \<notin> set (Enum pv)
                       then Some (''value must be one of: '' @ Sprint_strings (Enum pv))
                       else None))))
         | _ \<Rightarrow> Some (''expected string, got '' @ typeName v))
      else if param_Type param = ''number'' then
        (case (case v of
                 VFloat x \<Rightarrow> Inr x
               | VInt i \<Rightarrow> Inr (real_of_int i)
               | VString s \<Rightarrow>
                   (case strconv_ParseFloat P s of
                      Inl err \<Rightarrow> Inl (''cannot convert string to number: '' @ err)
                    | Inr x \<Rightarrow> Inr x)
               | _ \<Rightarrow> Inl (''expected number, got '' @ typeName v)) of
           Inl e \<Rightarrow> Some e
         | Inr num \<Rightarrow>
             (case param_Validation param of
                None \<Rightarrow> None
              | Some pv \<Rightarrow>
                  (case (case MinValue pv of
                           Some lo \<Rightarrow> if num < lo
                                      then Some (''number too small, minimum value is '' @ Sprint_f P lo)
                                      else None
                         | None \<Rightarrow> None) of
                     Some e \<Rightarrow> Some e
                   | None \<Rightarrow>
                       (case MaxValue pv of
                          Some hi \<Rightarrow> if num > hi
                                     then Some (''number too large, maximum value is '' @ Sprint_f P hi)
                                     else None
                        | None \<Rightarrow> None))))
      else if param_Type param = ''boolean'' then
        (case v of VBool b \<Rightarrow> None | _ \<Rightarrow> Some (''expected boolean, got '' @ typeName v))
      else if param_Type param = ''object'' then
        (case v of VObject kvs \<Rightarrow> None | _ \<Rightarrow> Some (''expected object, got '' @ typeName v))
      else if param_Type param = ''array'' then
        (case v of VArray xs \<Rightarrow> None | _ \<Rightarrow> Some (''expected array, got '' @ typeName v))
      else None)"

text \<open>
  \<^verbatim>\<open>validateParameters\<close>: the loop over the declared parameters. The Go function mutates
  the caller's map in place, so the model returns the map with the error: the defaults
  written before a later parameter fails stay written. A default is written with a map
  assignment, which panics on the nil map.
\<close>

fun validateParameters_loop ::
  "platform \<Rightarrow> ParameterConfig list \<Rightarrow> gomap \<Rightarrow> error option \<times> gomap" where
  "validateParameters_loop P [] arguments = (None, arguments)"
| "validateParameters_loop P (param # rest) arguments =
     (case map_index arguments (param_Name param) of
        None \<Rightarrow>
          if param_Required param
          then (Some (Error (''required parameter '' @ param_Name param @ '' is missing'')), arguments)
          else if param_Default param \<noteq> VNil then
            (case map_assign arguments (param_Name param) (param_Default param) of
               Inl e \<Rightarrow> (Some e, arguments)
             | Inr arguments' \<Rightarrow> validateParameters_loop P rest arguments')
          else validateParameters_loop P rest arguments
      | Some v \<Rightarrow>
          (case validateParameterValue P param v of
             Some e \<Rightarrow>
               (Some (Error (''parameter '' @ param_Name param @ '' validation failed: '' @ e)),
                arguments)
           | None \<Rightarrow> validateParameters_loop P rest arguments))"

definition validateParameters :: "platform \<Rightarrow> ToolConfig \<Rightarrow> gomap \<Rightarrow> error option \<times> gomap" where
  "validateParameters P tool arguments = validateParameters_loop P (tool_Parameters tool) arguments"

section \<open>Building the request (HTTPClient)\<close>

text \<open>
  The outbound request as \<^verbatim>\<open>buildRequest\<close> leaves it: the method, the parsed URL with its
  query values (what \<^verbatim>\<open>query.Encode()\<close> then renders into the URL), the body (\<open>None\<close>
  for the nil reader) and the headers. \<^verbatim>\<open>url.Values.Set\<close> and \<^verbatim>\<open>Header.Set\<close> replace
  the entry of a key. The Go code ranges over the maps \<^verbatim>\<open>QueryParams\<close> and \<^verbatim>\<open>Headers\<close> in
  an unspecified order; the model takes their entries in list order.
\<close>

record Request =
  req_Method :: string
  req_URL :: URL
  req_Body :: "string option"
  req_Header :: "(string \<times> string) list"

definition Values_Set :: "Values \<Rightarrow> string \<Rightarrow> string \<Rightarrow> Values" where
  "Values_Set q key v = AList.update key [v] q"

definition Header_Set :: "platform \<Rightarrow> (string \<times> string) list \<Rightarrow> string \<Rightarrow> string \<Rightarrow> (string \<times> string) list" where
  "Header_Set P h key v = AList.update (CanonicalHeaderKey P key) v h"

definition expandTemplate :: "platform \<Rightarrow> string \<Rightarrow> gomap \<Rightarrow> string + string" where
  "expandTemplate P templateStr params =
     (case template_Parse P templateStr of
        Some err \<Rightarrow> Inl (''invalid template: '' @ err)
      | None \<Rightarrow>
          (case template_Execute P templateStr params of
             Inl err \<Rightarrow> Inl (''template execution failed: '' @ err)
           | Inr s \<Rightarrow> Inr s))"

definition isGET :: "ToolConfig \<Rightarrow> bool" where
  "isGET tool = (strings_ToUpper (tool_Method tool) = ''GET'')"

text \<open>The loop over the configured query parameters.\<close>

fun expandQueryParams :: "platform \<Rightarrow> (string \<times> string) list \<Rightarrow> gomap \<Rightarrow> Values \<Rightarrow> string + Values" where
  "expandQueryParams P [] params query = Inr query"
| "expandQueryParams P ((key, v) # rest) params query =
     (case expandTemplate P v params of
        Inl err \<Rightarrow> Inl (''failed to expand query param '' @ key @ '': '' @ err)
      | Inr expandedValue \<Rightarrow> expandQueryParams P rest params (Values_Set query key expandedValue))"

text \<open>The loop over the declared parameters of a GET tool.\<close>

fun addParameterQuery :: "platform \<Rightarrow> ParameterConfig list \<Rightarrow> gomap \<Rightarrow> Values \<Rightarrow> Values" where
  "addParameterQuery P [] params query = query"
| "addParameterQuery P (param # rest) params query =
     (case map_index params (param_Name param) of
        Some v \<Rightarrow> addParameterQuery P rest params (Values_Set query (param_Name param) (Sprint_v P v))
      | None \<Rightarrow> addParameterQuery P rest params query)"

text \<open>The query of the request: the endpoint's own, the configured ones, then the parameters.\<close>

definition buildQuery :: "platform \<Rightarrow> ToolConfig \<Rightarrow> gomap \<Rightarrow> Values \<Rightarrow> string + Values" where
  "buildQuery P tool params query =
     (case expandQueryParams P (tool_QueryParams tool) params query of
        Inl e \<Rightarrow> Inl e
      | Inr configured \<Rightarrow>
          if isGET tool then Inr (addParameterQuery P (tool_Parameters tool) params configured)
          else Inr configured)"

text \<open>The body of the request.\<close>

definition buildBody :: "platform \<Rightarrow> ToolConfig \<Rightarrow> gomap \<Rightarrow> string + string option" where
  "buildBody P tool params =
     (if tool_BodyTemplate tool \<noteq> [] \<and> \<not> isGET tool then
        (case expandTemplate P (tool_BodyTemplate tool) params of
           Inl err \<Rightarrow> Inl (''failed to expand body template: '' @ err)
         | Inr bodyContent \<Rightarrow> Inr (Some bodyContent))
      else if \<not> isGET tool \<and> map_len params > 0 then
        (case json_Marshal P params of
           Inl err \<Rightarrow> Inl (''failed to marshal parameters to JSON: '' @ err)
         | Inr jsonBody \<Rightarrow> Inr (Some jsonBody))
      else Inr None)"

fun expandHeaders ::
  "platform \<Rightarrow> (string \<times> string) list \<Rightarrow> gomap \<Rightarrow> (string \<times> string) list \<Rightarrow> string + (string \<times> string) list" where
  "expandHeaders P [] params h = Inr h"
| "expandHeaders P ((key, v) # rest) params h =
     (case expandTemplate P v params of
        Inl err \<Rightarrow> Inl (''failed to expand header '' @ key @ '': '' @ err)
      | Inr expandedValue \<Rightarrow> expandHeaders P rest params (Header_Set P h key expandedValue))"

text \<open>\<^verbatim>\<open>applyAuthentication\<close>, on the headers of the request.\<close>

definition fromEnv :: "platform \<Rightarrow> AuthConfig \<Rightarrow> string \<Rightarrow> string" where
  "fromEnv P auth configured =
     (if auth_EnvVar auth \<noteq> [] \<and> os_Getenv P (auth_EnvVar auth) \<noteq> []
      then os_Getenv P (auth_EnvVar auth) else configured)"

definition applyAuthentication ::
  "platform \<Rightarrow> (string \<times> string) list \<Rightarrow> AuthConfig \<Rightarrow> string + (string \<times> string) list" where
  "applyAuthentication P h auth =
     (if auth_Type auth = ''bearer'' then
        (let token = fromEnv P auth (auth_Token auth) in
         if token = [] then Inl ''bearer token not found''
         else Inr (Header_Set P h ''Authorization'' (''Bearer '' @ token)))
      else if auth_Type auth = ''basic'' then
        (let username = auth_Username auth; password = fromEnv P auth (auth_Password auth) in
         if username = [] \<or> password = [] then Inl ''basic auth credentials not found''
         else Inr (Header_Set P h ''Authorization'' (''Basic '' @ basicAuth P username password)))
      else if auth_Type auth = ''api_key'' then
        Inr (fold (\<lambda>(key, v) h'. Header_Set P h' key (fromEnv P auth v)) (auth_Headers auth) h)
      else if auth_Type auth = ''custom'' then
        Inr (fold (\<lambda>(key, v) h'. Header_Set P h' key v) (auth_Headers auth) h)
      else Inr h)"

definition buildHeaders ::
  "platform \<Rightarrow> ToolConfig \<Rightarrow> gomap \<Rightarrow> string option \<Rightarrow> string + (string \<times> string) list" where
  "buildHeaders P tool params body =
     (let h0 = (if tool_ContentType tool \<noteq> [] \<and> body \<noteq> None
                then Header_Set P [] ''Content-Type'' (tool_ContentType tool) else []);
          h1 = Header_Set P h0 ''User-Agent'' ''MCP-Server/1.0.0'';
          h2 = Header_Set P h1 ''Accept'' ''application/json, text/plain, */*''
      in case expandHeaders P (tool_Headers tool) params h2 of
           Inl e \<Rightarrow> Inl e
         | Inr h3 \<Rightarrow>
             (case tool_Auth tool of
                None \<Rightarrow> Inr h3
              | Some auth \<Rightarrow>
                  (case applyAuthentication P h3 auth of
                     Inl err \<Rightarrow> Inl (''failed to apply authentication: '' @ err)
                   | Inr h4 \<Rightarrow> Inr h4)))"

definition expandEndpoint :: "platform \<Rightarrow> ToolConfig \<Rightarrow> gomap \<Rightarrow> string + string" where
  "expandEndpoint P tool params =
     (if strings_Contains (tool_Endpoint tool) ''{{'' then
        (case expandTemplate P (tool_Endpoint tool) params of
           Inl err \<Rightarrow> Inl (''failed to expand endpoint template: '' @ err)
         | Inr s \<Rightarrow> Inr s)
      else Inr (tool_Endpoint tool))"

definition buildRequest :: "platform \<Rightarrow> ToolConfig \<Rightarrow> gomap \<Rightarrow> string + Request" where
  "buildRequest P tool params =
     (case expandEndpoint P tool params of
        Inl e \<Rightarrow> Inl e
      | Inr expandedEndpoint \<Rightarrow>
     (case url_Parse P expandedEndpoint of
        Inl err \<Rightarrow> Inl (''invalid endpoint URL: '' @ err)
      | Inr parsedURL \<Rightarrow>
     (case buildQuery P tool params (url_Query parsedURL) of
        Inl e \<Rightarrow> Inl e
      | Inr query \<Rightarrow>
     (case buildBody P tool params of
        Inl e \<Rightarrow> Inl e
      | Inr body \<Rightarrow>
     (case http_NewRequest P (strings_ToUpper (tool_Method tool)) (parsedURL\<lparr>url_Query := query\<rparr>) of
        Some err \<Rightarrow> Inl (''failed to create request: '' @ err)
      | None \<Rightarrow>
     (case buildHeaders P tool params body of
        Inl e \<Rightarrow> Inl e
      | Inr h \<Rightarrow>
          Inr \<lparr>req_Method = strings_ToUpper (tool_Method tool),
               req_URL = parsedURL\<lparr>url_Query := query\<rparr>,
               req_Body = body,
               req_Header = h\<rparr>))))))"

section \<open>Processing the response (HTTPClient)\<close>

text \<open>
  A response as \<^verbatim>\<open>client.Do\<close> hands it over. Its body is \<^verbatim>\<open>http.NoBody\<close> when the
  response has none, otherwise a stream with its contents and whether it has been closed.
  Reading a closed stream fails; \<^verbatim>\<open>http.NoBody\<close> reads as empty whether closed or not.
\<close>

datatype Body = NoBody | Stream string bool

record Response =
  resp_StatusCode :: int
  resp_Header :: Values
  resp_Body :: Body

fun Body_Close :: "Body \<Rightarrow> Body" where
  "Body_Close NoBody = NoBody"
| "Body_Close (Stream s c) = Stream s True"

fun io_ReadAll :: "Body \<Rightarrow> string + string" where
  "io_ReadAll NoBody = Inr []"
| "io_ReadAll (Stream s isClosed) =
     (if isClosed then Inl ''http: read on closed response body'' else Inr s)"

definition Header_Get :: "Values \<Rightarrow> string \<Rightarrow> string" where
  "Header_Get h key = (case map_of h key of Some (v # vs) \<Rightarrow> v | _ \<Rightarrow> [])"

record APIResponse =
  api_StatusCode :: int
  api_Headers :: "(string \<times> string) list"
  api_Body :: string
  api_Data :: gvalue

fun copyHeaders :: "Values \<Rightarrow> (string \<times> string) list \<Rightarrow> (string \<times> string) list" where
  "copyHeaders [] acc = acc"
| "copyHeaders ((key, vs) # rest) acc =
     (case vs of [] \<Rightarrow> copyHeaders rest acc | v # _ \<Rightarrow> copyHeaders rest (AList.update key v acc))"

definition isSuccessStatusCode :: "int \<Rightarrow> ValidationConfig option \<Rightarrow> bool" where
  "isSuccessStatusCode statusCode validation =
     (case validation of
        Some v \<Rightarrow>
          if StatusCodes v \<noteq> [] then statusCode \<in> set (StatusCodes v)
          else 200 \<le> statusCode \<and> statusCode < 300
      | None \<Rightarrow> 200 \<le> statusCode \<and> statusCode < 300)"

definition validateResponse :: "APIResponse \<Rightarrow> ValidationConfig \<Rightarrow> string option" where
  "validateResponse resp validation =
     (if StatusCodes validation \<noteq> [] \<and> api_StatusCode resp \<notin> set (StatusCodes validation)
      then Some (''unexpected status code '' @ Itoa (api_StatusCode resp))
      else if RequiredFields validation \<noteq> [] \<and> api_Data resp \<noteq> VNil then
        (case api_Data resp of
           VObject data \<Rightarrow>
             (case List.find (\<lambda>field. map_of data field = None) (RequiredFields validation) of
                Some field \<Rightarrow> Some (''required field '' @ field @ '' missing from response'')
              | None \<Rightarrow> None)
         | _ \<Rightarrow> Some ''response is not a JSON object'')
      else None)"

definition parseData :: "platform \<Rightarrow> Values \<Rightarrow> string \<Rightarrow> gvalue" where
  "parseData P header bodyBytes =
     (if strings_Contains (Header_Get header ''Content-Type'') ''application/json'' \<and> length bodyBytes > 0
      then (case json_Unmarshal P bodyBytes of Inl err \<Rightarrow> VNil | Inr jsonData \<Rightarrow> jsonData)
      else VNil)"

definition processResponse :: "platform \<Rightarrow> Response \<Rightarrow> ToolConfig \<Rightarrow> string + APIResponse" where
  "processResponse P resp tool =
     (case io_ReadAll (resp_Body resp) of
        Inl err \<Rightarrow> Inl (''failed to read response body: '' @ err)
      | Inr bodyBytes \<Rightarrow>
          (let apiResp = \<lparr>api_StatusCode = resp_StatusCode resp,
                          api_Headers = copyHeaders (resp_Header resp) [],
                          api_Body = bodyBytes,
                          api_Data = parseData P (resp_Header resp) bodyBytes\<rparr>
           in case tool_Validation tool of
                None \<Rightarrow> Inr apiResp
              | Some validation \<Rightarrow>
                  (case validateResponse apiResp validation of
                     Some err \<Rightarrow> Inl (''response validation failed: '' @ err)
                   | None \<Rightarrow> Inr apiResp)))"

section \<open>The retrying executor (HTTPClient.ExecuteRequest)\<close>

text \<open>
  The transport behind \<^verbatim>\<open>client.Do\<close>, with a state of its own (the network and the
  upstream): sent a request in a state, it answers with a network error or a response and
  moves to its next state. Only a call of \<^verbatim>\<open>client.Do\<close> changes that state. Deadlines and
  the backoff sleep are not part of the model: an attempt cut short by the deadline is a
  network error.

  The loop keeps \<^verbatim>\<open>resp\<close> and \<^verbatim>\<open>lastErr\<close>. It returns early when the request cannot
  be built, leaves with the response still open when the status is a success, and
  otherwise closes the body of the response and goes on.
\<close>

type_synonym 's transport = "'s \<Rightarrow> Request \<Rightarrow> (string + Response) \<times> 's"

function attempts ::
  "platform \<Rightarrow> 's transport \<Rightarrow> ToolConfig \<Rightarrow> gomap \<Rightarrow> int \<Rightarrow> Response option \<Rightarrow> string option \<Rightarrow> 's
   \<Rightarrow> (string + Response option \<times> string option) \<times> 's" where
  "attempts P Do tool params attempt resp lastErr net =
     (if attempt \<le> tool_Retries tool then
        (case buildRequest P tool params of
           Inl err \<Rightarrow> (Inl (''failed to build request: '' @ err), net)
         | Inr req \<Rightarrow>
             (case Do net req of
                (Inl e, net') \<Rightarrow> attempts P Do tool params (attempt + 1) None (Some e) net'
              | (Inr r, net') \<Rightarrow>
                  if isSuccessStatusCode (resp_StatusCode r) (tool_Validation tool)
                  then (Inr (Some r, None), net')
                  else attempts P Do tool params (attempt + 1)
                         (Some (r\<lparr>resp_Body := Body_Close (resp_Body r)\<rparr>)) None net'))
      else (Inr (resp, lastErr), net))"
  by pat_completeness auto
termination
  by (relation "measure (\<lambda>(P, Do, tool, params, attempt, resp, lastErr, net).
                  nat (tool_Retries tool + 1 - attempt))") auto

definition ExecuteRequest ::
  "platform \<Rightarrow> 's transport \<Rightarrow> ToolConfig \<Rightarrow> gomap \<Rightarrow> 's \<Rightarrow> (error + APIResponse) \<times> 's" where
  "ExecuteRequest P Do tool params net =
     (case attempts P Do tool params 0 None None net of
        (Inl e, n) \<Rightarrow> (Inl (Error e), n)
      | (Inr (resp, lastErr), n) \<Rightarrow>
          (case lastErr of
             Some e \<Rightarrow>
               (Inl (Error (''request failed after '' @ Itoa (tool_Retries tool + 1) @ '' attempts: '' @ e)), n)
           | None \<Rightarrow>
               (case resp of
                  None \<Rightarrow> (Inl (Panic ''invalid memory address or nil pointer dereference''), n)
                | Some r \<Rightarrow>
                    (case processResponse P r tool of
                       Inl err \<Rightarrow> (Inl (Error (''failed to process response: '' @ err)), n)
                     | Inr apiResp \<Rightarrow> (Inr apiResp, n)))))"

text \<open>
  An attempt that does not end the loop: a network error, or a response whose status is
  not classified as a success. What the loop keeps of such an attempt: the error, or the
  response with its body closed. The state of the transport after it was sent one request
  \<open>k\<close> times in a row, and a transport that also keeps the list of the requests it was sent.
\<close>

fun sends :: "'s transport \<Rightarrow> Request \<Rightarrow> nat \<Rightarrow> 's \<Rightarrow> 's" where
  "sends Do req 0 net = net"
| "sends Do req (Suc k) net = sends Do req k (snd (Do net req))"

definition logged :: "'s transport \<Rightarrow> ('s \<times> Request list) transport" where
  "logged Do = (\<lambda>(net, reqs) req. case Do net req of (outcome, net') \<Rightarrow> (outcome, (net', reqs @ [req])))"

definition unsuccessful :: "ToolConfig \<Rightarrow> string + Response \<Rightarrow> bool" where
  "unsuccessful tool outcome =
     (case outcome of
        Inl e \<Rightarrow> True
      | Inr r \<Rightarrow> \<not> isSuccessStatusCode (resp_StatusCode r) (tool_Validation tool))"

definition afterAttempt :: "string + Response \<Rightarrow> Response option \<times> string option" where
  "afterAttempt outcome =
     (case outcome of
        Inl e \<Rightarrow> (None, Some e)
      | Inr r \<Rightarrow> (Some (r\<lparr>resp_Body := Body_Close (resp_Body r)\<rparr>), None))"

section \<open>Executing a tool (ToolHandler)\<close>

text \<open>
  The result type of the mcp-go SDK. \<^verbatim>\<open>mcp.NewToolResultText\<close> and
  \<^verbatim>\<open>mcp.NewToolResultError\<close> build a result of one \<^verbatim>\<open>mcp.TextContent\<close> value, the second
  with \<^verbatim>\<open>IsError\<close> set. The other shapes of a content element are the ones
  \<^verbatim>\<open>handleToolsCall\<close> tests for: a pointer to a text content, a map, and anything else
  (kept as its \<^verbatim>\<open>%v\<close> rendering).
\<close>

datatype Content =
    TextContent string
  | TextContentPtr string
  | MapContent "(string \<times> gvalue) list"
  | OtherContent string

record CallToolResult =
  result_Content :: "Content list"
  result_IsError :: bool

definition NewToolResultText :: "string \<Rightarrow> CallToolResult" where
  "NewToolResultText t = \<lparr>result_Content = [TextContent t], result_IsError = False\<rparr>"

definition NewToolResultError :: "string \<Rightarrow> CallToolResult" where
  "NewToolResultError t = \<lparr>result_Content = [TextContent t], result_IsError = True\<rparr>"

definition structuredText :: "platform \<Rightarrow> APIResponse \<Rightarrow> CallToolResult" where
  "structuredText P response =
     (if api_Data response \<noteq> VNil then
        (case json_MarshalIndent P (api_Data response) of
           Inl err \<Rightarrow> NewToolResultText (api_Body response)
         | Inr jsonBytes \<Rightarrow> NewToolResultText jsonBytes)
      else NewToolResultText (api_Body response))"

definition convertResponseToMCPResult :: "platform \<Rightarrow> APIResponse \<Rightarrow> ToolConfig \<Rightarrow> CallToolResult" where
  "convertResponseToMCPResult P response tool =
     (if api_StatusCode response \<ge> 400 then
        NewToolResultError (''HTTP Error '' @ Itoa (api_StatusCode response) @ '': '' @ api_Body response)
      else if tool_ReturnType tool = ''string'' then NewToolResultText (api_Body response)
      else if tool_ReturnType tool = ''object'' \<or> tool_ReturnType tool = ''array''
      then structuredText P response
      else structuredText P response)"

text \<open>
  \<^verbatim>\<open>ExecuteTool\<close>, with the state it leaves the transport in. The registry \<^verbatim>\<open>h.tools\<close> is
  a map from tool names. The arguments that reach \<^verbatim>\<open>ExecuteRequest\<close> are the ones
  validation left in the caller's map.
\<close>

definition ExecuteTool ::
  "platform \<Rightarrow> 's transport \<Rightarrow> (string \<Rightarrow> ToolConfig option) \<Rightarrow> string \<Rightarrow> gomap \<Rightarrow> 's
   \<Rightarrow> (error + CallToolResult) \<times> 's" where
  "ExecuteTool P Do tools toolName arguments net =
     (case tools toolName of
        None \<Rightarrow> (Inl (Error (''tool '' @ toolName @ '' not found'')), net)
      | Some tool \<Rightarrow>
          (case validateParameters P tool arguments of
             (Some (Error e), arguments') \<Rightarrow> (Inl (Error (''parameter validation failed: '' @ e)), net)
           | (Some (Panic p), arguments') \<Rightarrow> (Inl (Panic p), net)
           | (None, arguments') \<Rightarrow>
               (case ExecuteRequest P Do tool arguments' net of
                  (Inl (Error e), n) \<Rightarrow>
                    (Inr (NewToolResultError
                            (tool_Method tool @ '' '' @ tool_Endpoint tool @ '' failed: '' @ e)), n)
                | (Inl (Panic p), n) \<Rightarrow> (Inl (Panic p), n)
                | (Inr response, n) \<Rightarrow> (Inr (convertResponseToMCPResult P response tool), n))))"

section \<open>The JSON-RPC dispatcher (JSONRPCHandler)\<close>

record JSONRPCRequest =
  rpc_JSONRPC :: string
  rpc_ID :: gvalue
  rpc_Method :: string
  rpc_Params :: gvalue

record JSONRPCError =
  err_Code :: int
  err_Message :: string
  err_Data :: gvalue

record JSONRPCResponse =
  res_JSONRPC :: string
  res_ID :: gvalue
  res_Result :: gvalue
  res_Error :: "JSONRPCError option"

text \<open>
  The inbound HTTP request and the response writer: the headers set, the status written
  (\<open>None\<close> before \<^verbatim>\<open>WriteHeader\<close>) and the JSON-RPC response encoded into the body.
\<close>

record HTTPRequest =
  http_Method :: string
  http_Body :: string

record ResponseWriter =
  w_Header :: "(string \<times> string) list"
  w_Status :: "int option"
  w_Body :: "JSONRPCResponse option"

text \<open>
  The decoding steps of \<^verbatim>\<open>encoding/json\<close> into the handler's structs, as parameters:
  the request body into a \<^verbatim>\<open>JSONRPCRequest\<close>, and \<^verbatim>\<open>req.Params\<close> into the parameter
  struct of each method. The handlers of \<^verbatim>\<open>prompts/get\<close> and \<^verbatim>\<open>resources/read\<close> ignore
  the decoding error and go on with what was decoded.
\<close>

record decoder =
  decodeRequest :: "string \<Rightarrow> string + JSONRPCRequest"
  decodeToolsCallParams :: "gvalue \<Rightarrow> string + string \<times> gomap"
  decodePromptsGetParams :: "gvalue \<Rightarrow> string \<times> (string \<times> string) list"
  decodeResourcesReadParams :: "gvalue \<Rightarrow> string"

record ServerConfig =
  server_Name :: string
  server_Version :: string

record ArgumentConfig =
  arg_Name :: string
  arg_Description :: string
  arg_Required :: bool

record PromptConfig =
  prompt_Name :: string
  prompt_Description :: string
  prompt_Content :: string
  prompt_Arguments :: "ArgumentConfig list"

record ResourceConfig =
  resource_URI :: string
  resource_Name :: string
  resource_Description :: string
  resource_MimeType :: string
  resource_Content :: string
  resource_FilePath :: string
  resource_URL :: string

record Config =
  cfg_Server :: ServerConfig
  cfg_Tools :: "ToolConfig list"
  cfg_Prompts :: "PromptConfig list"
  cfg_Resources :: "ResourceConfig list"

record JSONRPCHandler =
  h_config :: Config
  h_tools :: "string \<Rightarrow> ToolConfig option"

definition writeSuccess :: "platform \<Rightarrow> ResponseWriter \<Rightarrow> gvalue \<Rightarrow> gvalue \<Rightarrow> ResponseWriter" where
  "writeSuccess P w ident result =
     w\<lparr>w_Header := Header_Set P (w_Header w) ''Content-Type'' ''application/json'',
       w_Status := Some 200,
       w_Body := Some \<lparr>res_JSONRPC = ''2.0'', res_ID = ident, res_Result = result, res_Error = None\<rparr>\<rparr>"

definition writeError ::
  "platform \<Rightarrow> ResponseWriter \<Rightarrow> gvalue \<Rightarrow> int \<Rightarrow> string \<Rightarrow> gvalue \<Rightarrow> ResponseWriter" where
  "writeError P w ident code message dat =
     w\<lparr>w_Header := Header_Set P (w_Header w) ''Content-Type'' ''application/json'',
       w_Status := Some 200,
       w_Body := Some \<lparr>res_JSONRPC = ''2.0'', res_ID = ident, res_Result = VNil,
                       res_Error = Some \<lparr>err_Code = code, err_Message = message, err_Data = dat\<rparr>\<rparr>\<rparr>"

definition handleInitialize :: "platform \<Rightarrow> JSONRPCHandler \<Rightarrow> ResponseWriter \<Rightarrow> JSONRPCRequest \<Rightarrow> ResponseWriter" where
  "handleInitialize P h w req =
     writeSuccess P w (rpc_ID req)
       (VObject
          [(''protocolVersion'', VString ''2024-11-05''),
           (''capabilities'',
              VObject [(''tools'', VObject [(''listChanged'', VBool True)]),
                       (''prompts'', VObject [(''listChanged'', VBool True)]),
                       (''resources'', VObject [(''listChanged'', VBool True)])]),
           (''serverInfo'',
              VObject [(''name'', VString (server_Name (cfg_Server (h_config h)))),
                       (''version'', VString (server_Version (cfg_Server (h_config h))))]),
           (''instructions'', VString ''MCP Server ready for tool, prompt, and resource operations'')])"

definition handleInitialized :: "platform \<Rightarrow> ResponseWriter \<Rightarrow> JSONRPCRequest \<Rightarrow> ResponseWriter" where
  "handleInitialized P w req = writeSuccess P w (rpc_ID req) (VObject [])"

definition handlePing :: "platform \<Rightarrow> ResponseWriter \<Rightarrow> JSONRPCRequest \<Rightarrow> ResponseWriter" where
  "handlePing P w req = writeSuccess P w (rpc_ID req) (VObject [])"

definition put_opt :: "string \<Rightarrow> gvalue option \<Rightarrow> (string \<times> gvalue) list \<Rightarrow> (string \<times> gvalue) list" where
  "put_opt key v m = (case v of None \<Rightarrow> m | Some x \<Rightarrow> AList.update key x m)"

definition propSchema :: "ParameterConfig \<Rightarrow> (string \<times> gvalue) list" where
  "propSchema param =
     (let s0 = [(''type'', VString (param_Type param)),
                (''description'', VString (param_Description param))];
          s1 = (if param_Default param \<noteq> VNil then AList.update ''default'' (param_Default param) s0 else s0)
      in case param_Validation param of
           None \<Rightarrow> s1
         | Some pv \<Rightarrow>
             if param_Type param = ''string'' then
               (let s2 = put_opt ''minLength'' (map_option VInt (MinLength pv)) s1;
                    s3 = put_opt ''maxLength'' (map_option VInt (MaxLength pv)) s2;
                    s4 = put_opt ''pattern'' (map_option VString (Pattern pv)) s3
                in if Enum pv \<noteq> [] then AList.update ''enum'' (VArray (map VString (Enum pv))) s4 else s4)
             else if param_Type param = ''number'' then
               (let s2 = put_opt ''minimum'' (map_option VFloat (MinValue pv)) s1
                in put_opt ''maximum'' (map_option VFloat (MaxValue pv)) s2)
             else s1)"

definition toolDef :: "ToolConfig \<Rightarrow> gvalue" where
  "toolDef tool =
     (let properties = fold (\<lambda>param m. AList.update (param_Name param) (VObject (propSchema param)) m)
                         (tool_Parameters tool) [];
          required = map param_Name (filter param_Required (tool_Parameters tool));
          s0 = [(''type'', VString ''object''), (''properties'', VObject properties)];
          inputSchema = (if required \<noteq> [] then AList.update ''required'' (VArray (map VString required)) s0
                         else s0)
      in VObject [(''name'', VString (tool_Name tool)),
                  (''description'', VString (tool_Description tool)),
                  (''inputSchema'', VObject inputSchema)])"

definition handleToolsList :: "platform \<Rightarrow> JSONRPCHandler \<Rightarrow> ResponseWriter \<Rightarrow> JSONRPCRequest \<Rightarrow> ResponseWriter" where
  "handleToolsList P h w req =
     writeSuccess P w (rpc_ID req)
       (VObject [(''tools'', VArray (map toolDef (cfg_Tools (h_config h))))])"

definition promptDef :: "PromptConfig \<Rightarrow> gvalue" where
  "promptDef prompt =
     VObject [(''name'', VString (prompt_Name prompt)),
              (''description'', VString (prompt_Description prompt)),
              (''arguments'',
                 VArray (map (\<lambda>a. VObject [(''name'', VString (arg_Name a)),
                                            (''description'', VString (arg_Description a)),
                                            (''required'', VBool (arg_Required a))])
                           (prompt_Arguments prompt)))]"

definition handlePromptsList :: "platform \<Rightarrow> JSONRPCHandler \<Rightarrow> ResponseWriter \<Rightarrow> JSONRPCRequest \<Rightarrow> ResponseWriter" where
  "handlePromptsList P h w req =
     writeSuccess P w (rpc_ID req)
       (VObject [(''prompts'', VArray (map promptDef (cfg_Prompts (h_config h))))])"

text \<open>
  \<^verbatim>\<open>strings.ReplaceAll\<close>, bytewise. The handler only calls it with a placeholder
  \<^verbatim>\<open>{key}\<close>, which is never empty.
\<close>

function strings_ReplaceAll :: "string \<Rightarrow> string \<Rightarrow> string \<Rightarrow> string" where
  "strings_ReplaceAll s old new =
     (if old = [] then new @ concat (map (\<lambda>c. c # new) s)
      else if s = [] then []
      else if has_prefix s old then new @ strings_ReplaceAll (drop (length old) s) old new
      else hd s # strings_ReplaceAll (tl s) old new)"
  by pat_completeness auto
termination
  by (relation "measure (\<lambda>(s, old, new). length s)") auto

definition handlePromptsGet ::
  "platform \<Rightarrow> decoder \<Rightarrow> JSONRPCHandler \<Rightarrow> ResponseWriter \<Rightarrow> JSONRPCRequest \<Rightarrow> ResponseWriter" where
  "handlePromptsGet P D h w req =
     (let (name, arguments) =
            (if rpc_Params req \<noteq> VNil then decodePromptsGetParams D (rpc_Params req) else ([], []))
      in case List.find (\<lambda>p. prompt_Name p = name) (cfg_Prompts (h_config h)) of
           None \<Rightarrow>
             writeError P w (rpc_ID req) (- 32602) ''Invalid params''
               (VString (''Prompt '' @ [CHR 0x27] @ name @ [CHR 0x27] @ '' not found''))
         | Some promptConfig \<Rightarrow>
             (let content = fold (\<lambda>(key, v) c. strings_ReplaceAll c (''{'' @ key @ ''}'') v)
                              arguments (prompt_Content promptConfig)
              in writeSuccess P w (rpc_ID req)
                   (VObject [(''description'', VString (prompt_Description promptConfig)),
                             (''messages'',
                                VArray [VObject [(''role'', VString ''user''),
                                                 (''content'',
                                                    VObject [(''type'', VString ''text''),
                                                             (''text'', VString content)])]])])))"

definition handleResourcesList :: "platform \<Rightarrow> JSONRPCHandler \<Rightarrow> ResponseWriter \<Rightarrow> JSONRPCRequest \<Rightarrow> ResponseWriter" where
  "handleResourcesList P h w req =
     writeSuccess P w (rpc_ID req)
       (VObject [(''resources'',
                    VArray (map (\<lambda>r. VObject [(''uri'', VString (resource_URI r)),
                                               (''name'', VString (resource_Name r)),
                                               (''description'', VString (resource_Description r)),
                                               (''mimeType'', VString (resource_MimeType r))])
                              (cfg_Resources (h_config h))))])"

definition handleResourcesRead ::
  "platform \<Rightarrow> decoder \<Rightarrow> JSONRPCHandler \<Rightarrow> ResponseWriter \<Rightarrow> JSONRPCRequest \<Rightarrow> ResponseWriter" where
  "handleResourcesRead P D h w req =
     (let uri = (if rpc_Params req \<noteq> VNil then decodeResourcesReadParams D (rpc_Params req) else [])
      in case List.find (\<lambda>r. resource_URI r = uri) (cfg_Resources (h_config h)) of
           None \<Rightarrow>
             writeError P w (rpc_ID req) (- 32602) ''Invalid params''
               (VString (''Resource '' @ [CHR 0x27] @ uri @ [CHR 0x27] @ '' not found''))
         | Some resourceConfig \<Rightarrow>
             (let c0 = resource_Content resourceConfig;
                  c1 = (if c0 = [] \<and> resource_FilePath resourceConfig \<noteq> []
                        then ''File content would be loaded here'' else c0);
                  c2 = (if c1 = [] \<and> resource_URL resourceConfig \<noteq> []
                        then ''URL content would be fetched here'' else c1)
              in writeSuccess P w (rpc_ID req)
                   (VObject [(''contents'',
                                VArray [VObject [(''uri'', VString (resource_URI resourceConfig)),
                                                 (''mimeType'', VString (resource_MimeType resourceConfig)),
                                                 (''text'', VString c2)]])])))"

text \<open>
  \<^verbatim>\<open>handleToolsCall\<close>, with the state it leaves the transport in. A panic leaves the
  handler without a response written.
\<close>

definition errorMessage :: "CallToolResult \<Rightarrow> string" where
  "errorMessage result =
     (case result_Content result of
        [] \<Rightarrow> ''Tool execution failed''
      | c # cs \<Rightarrow>
          (case c of
             TextContentPtr t \<Rightarrow> t
           | TextContent t \<Rightarrow> t
           | MapContent m \<Rightarrow> (case map_of m ''text'' of Some (VString t) \<Rightarrow> t | _ \<Rightarrow> ''Tool execution failed'')
           | OtherContent s \<Rightarrow> ''Tool execution failed''))"

definition textBlock :: "string \<Rightarrow> gvalue" where
  "textBlock t = VObject [(''type'', VString ''text''), (''text'', VString t)]"

definition contentBlock :: "platform \<Rightarrow> Content \<Rightarrow> gvalue" where
  "contentBlock P c =
     (case c of
        TextContentPtr t \<Rightarrow> textBlock t
      | TextContent t \<Rightarrow> textBlock t
      | MapContent m \<Rightarrow>
          (case (map_of m ''type'', map_of m ''text'') of
             (Some (VString ty), Some (VString t)) \<Rightarrow>
               if ty = ''text'' then textBlock t else textBlock (Sprint_v P (VObject m))
           | _ \<Rightarrow> textBlock (Sprint_v P (VObject m)))
      | OtherContent s \<Rightarrow> textBlock s)"

definition handleToolsCall ::
  "platform \<Rightarrow> decoder \<Rightarrow> 's transport \<Rightarrow> JSONRPCHandler \<Rightarrow> ResponseWriter \<Rightarrow> JSONRPCRequest \<Rightarrow> 's
   \<Rightarrow> (error + ResponseWriter) \<times> 's" where
  "handleToolsCall P D Do h w req net =
     (case (if rpc_Params req \<noteq> VNil then decodeToolsCallParams D (rpc_Params req) else Inr ([], None)) of
        Inl err \<Rightarrow> (Inr (writeError P w (rpc_ID req) (- 32602) ''Invalid params'' (VString err)), net)
      | Inr (name, arguments) \<Rightarrow>
          (case ExecuteTool P Do (h_tools h) name arguments net of
             (Inl (Panic p), n) \<Rightarrow> (Inl (Panic p), n)
           | (Inl (Error e), n) \<Rightarrow>
               (Inr (writeError P w (rpc_ID req) (- 32000) ''Tool execution error''
                       (VString (''Failed to execute tool '' @ [CHR 0x27] @ name @ [CHR 0x27] @ '': '' @ e))), n)
           | (Inr result, n) \<Rightarrow>
               if result_IsError result then
                 (Inr (writeError P w (rpc_ID req) (- 32000) ''Tool execution error''
                         (VString (errorMessage result))), n)
               else
                 (Inr (writeSuccess P w (rpc_ID req)
                         (VObject [(''content'', VArray (map (contentBlock P) (result_Content result)))])), n)))"

definition ServeHTTP ::
  "platform \<Rightarrow> decoder \<Rightarrow> 's transport \<Rightarrow> JSONRPCHandler \<Rightarrow> HTTPRequest \<Rightarrow> 's
   \<Rightarrow> (error + ResponseWriter) \<times> 's" where
  "ServeHTTP P D Do h r net =
     (let w0 = \<lparr>w_Header = [], w_Status = None, w_Body = None\<rparr>;
          w = w0\<lparr>w_Header :=
                   Header_Set P
                     (Header_Set P
                        (Header_Set P
                           (Header_Set P [] ''Access-Control-Allow-Origin'' ''*'')
                           ''Access-Control-Allow-Methods'' ''POST, OPTIONS'')
                        ''Access-Control-Allow-Headers'' ''Content-Type, Authorization'')
                     ''Access-Control-Max-Age'' ''86400''\<rparr>
      in if http_Method r = ''OPTIONS'' then (Inr (w\<lparr>w_Status := Some 204\<rparr>), net)
         else if http_Method r \<noteq> ''POST'' then
           (Inr (writeError P w VNil (- 32600) ''Invalid Request'' (VString ''Only POST method is allowed'')), net)
         else
           (case decodeRequest D (http_Body r) of
              Inl err \<Rightarrow> (Inr (writeError P w VNil (- 32700) ''Parse error'' (VString err)), net)
            | Inr req \<Rightarrow>
                if rpc_Method req = ''initialize'' then (Inr (handleInitialize P h w req), net)
                else if rpc_Method req = ''initialized'' then (Inr (handleInitialized P w req), net)
                else if rpc_Method req = ''tools/list'' then (Inr (handleToolsList P h w req), net)
                else if rpc_Method req = ''tools/call'' then handleToolsCall P D Do h w req net
                else if rpc_Method req = ''prompts/list'' then (Inr (handlePromptsList P h w req), net)
                else if rpc_Method req = ''prompts/get'' then (Inr (handlePromptsGet P D h w req), net)
                else if rpc_Method req = ''resources/list'' then (Inr (handleResourcesList P h w req), net)
                else if rpc_Method req = ''resources/read'' then (Inr (handleResourcesRead P D h w req), net)
                else if rpc_Method req = ''ping'' then (Inr (handlePing P w req), net)
                else (Inr (writeError P w (rpc_ID req) (- 32601) ''Method not found''
                             (VString (''Unknown method: '' @ rpc_Method req))), net)))"

text \<open>A JSON-RPC response as the two writers leave it.\<close>

definition delivered :: "ResponseWriter \<Rightarrow> bool" where
  "delivered w =
     (case w_Body w of
        None \<Rightarrow> False
      | Some response \<Rightarrow>
          w_Status w = Some 200 \<and> res_JSONRPC response = ''2.0'' \<and>
          ((res_Error response = None) = (res_Result response \<noteq> VNil)))"

section \<open>An instance for the worked examples\<close>

text \<open>
  The examples below run the handlers on a fixed platform: an empty environment, templates
  without actions (such a text expands to itself), endpoints without a query string, header
  names already in canonical form, and maps of string values listed by increasing key. On
  these inputs the functions below compute what the Go libraries compute; the examples use
  no other input. The decoders read the empty body, one \<^verbatim>\<open>ping\<close> request and the
  parameters \<^verbatim>\<open>{name, arguments}\<close> of a tool call.
\<close>

definition quoted :: "string \<Rightarrow> string" where
  "quoted s = [CHR 0x22] @ s @ [CHR 0x22]"

fun join_comma :: "string list \<Rightarrow> string" where
  "join_comma [] = []"
| "join_comma [x] = x"
| "join_comma (x # y # ys) = x @ '','' @ join_comma (y # ys)"

fun example_member :: "string \<times> gvalue \<Rightarrow> string option" where
  "example_member (k, VString s) = Some (quoted k @ '':'' @ quoted s)"
| "example_member (k, v) = None"

definition example_Marshal :: "gomap \<Rightarrow> string + string" where
  "example_Marshal m =
     (case m of
        None \<Rightarrow> Inr ''null''
      | Some kvs \<Rightarrow>
          if list_all (\<lambda>kv. example_member kv \<noteq> None) kvs
          then Inr (''{'' @ join_comma (List.map_filter example_member kvs) @ ''}'')
          else Inl ''unsupported value'')"

definition example_Unmarshal :: "string \<Rightarrow> string + gvalue" where
  "example_Unmarshal s =
     (if s = ''null'' then Inr VNil
      else if s = ''[]'' then Inr (VArray [])
      else if s = ''{}'' then Inr (VObject [])
      else if s = ''{'' @ quoted ''id'' @ '':'' @ quoted ''42'' @ ''}''
      then Inr (VObject [(''id'', VString ''42'')])
      else Inl ''invalid character'')"

fun example_Sprint :: "gvalue \<Rightarrow> string" where
  "example_Sprint (VString s) = s"
| "example_Sprint (VBool b) = (if b then ''true'' else ''false'')"
| "example_Sprint (VInt i) = Itoa i"
| "example_Sprint VNil = ''<nil>''"
| "example_Sprint v = []"

fun index_of :: "char \<Rightarrow> string \<Rightarrow> nat" where
  "index_of c [] = 0"
| "index_of c (d # ds) = (if c = d then 0 else Suc (index_of c ds))"

definition example_ParseFloat :: "string \<Rightarrow> string + real" where
  "example_ParseFloat s =
     (if s \<noteq> [] \<and> list_all (\<lambda>c. c \<in> set ''0123456789'') s
      then Inr (real (foldl (\<lambda>n c. 10 * n + index_of c ''0123456789'') 0 s))
      else Inl ''invalid syntax'')"

definition example_platform :: platform where
  "example_platform =
     \<lparr>os_Getenv = (\<lambda>name. []),
      template_Parse = (\<lambda>t. None),
      template_Execute = (\<lambda>t params. Inr t),
      url_Parse = (\<lambda>s. Inr \<lparr>url_Location = s, url_Query = []\<rparr>),
      json_Marshal = example_Marshal,
      json_MarshalIndent = (\<lambda>v. Inl ''unsupported value''),
      json_Unmarshal = example_Unmarshal,
      Sprint_v = example_Sprint,
      Sprint_f = (\<lambda>x. []),
      strconv_ParseFloat = example_ParseFloat,
      regexp_MatchString = (\<lambda>pat s. Inl ''unsupported pattern''),
      http_NewRequest = (\<lambda>m u. None),
      CanonicalHeaderKey = (\<lambda>k. k),
      basicAuth = (\<lambda>u p. [])\<rparr>"

definition ping_body :: string where
  "ping_body =
     ''{'' @ quoted ''jsonrpc'' @ '':'' @ quoted ''2.0'' @ '','' @ quoted ''id'' @ '':1,'' @
     quoted ''method'' @ '':'' @ quoted ''ping'' @ ''}''"

definition example_decoder :: decoder where
  "example_decoder =
     \<lparr>decodeRequest =
        (\<lambda>body. if body = [] then Inl ''EOF''
               else if body = ping_body
               then Inr \<lparr>rpc_JSONRPC = ''2.0'', rpc_ID = VFloat 1, rpc_Method = ''ping'', rpc_Params = VNil\<rparr>
               else Inl ''invalid character''),
      decodeToolsCallParams =
        (\<lambda>v. case v of
               VObject kvs \<Rightarrow>
                 (case (map_of kvs ''name'', map_of kvs ''arguments'') of
                    (Some (VString n), Some (VObject a)) \<Rightarrow> Inr (n, Some a)
                  | (Some (VString n), None) \<Rightarrow> Inr (n, None)
                  | _ \<Rightarrow> Inl ''json: cannot unmarshal'')
             | _ \<Rightarrow> Inl ''json: cannot unmarshal''),
      decodePromptsGetParams = (\<lambda>v. ([], [])),
      decodeResourcesReadParams = (\<lambda>v. [])\<rparr>"

text \<open>A POST tool with an optional bounded number and an optional page with a default.\<close>

definition count_param :: ParameterConfig where
  "count_param =
     \<lparr>param_Name = ''count'', param_Type = ''number'', param_Description = ''how many'',
      param_Required = False, param_Default = VNil,
      param_Validation = Some \<lparr>MinLength = None, MaxLength = None, Pattern = None,
                               MinValue = Some 1, MaxValue = Some 100, Enum = []\<rparr>\<rparr>"

definition page_param :: ParameterConfig where
  "page_param =
     \<lparr>param_Name = ''page'', param_Type = ''string'', param_Description = ''which page'',
      param_Required = False, param_Default = VString ''1'', param_Validation = None\<rparr>"

definition search_tool :: ToolConfig where
  "search_tool =
     \<lparr>tool_Name = ''search'', tool_Description = ''search the items'',
      tool_Endpoint = ''https://api.example.com/search'', tool_Method = ''POST'',
      tool_Headers = [], tool_QueryParams = [], tool_BodyTemplate = [],
      tool_ContentType = ''application/json'',
      tool_Parameters = [count_param, page_param], tool_ReturnType = ''string'',
      tool_Retries = 1, tool_Auth = None, tool_Validation = None\<rparr>"

text \<open>A GET tool with a required identifier, and a PUT tool with a fixed body template.\<close>

definition id_param :: ParameterConfig where
  "id_param =
     \<lparr>param_Name = ''id'', param_Type = ''string'', param_Description = ''the item'',
      param_Required = True, param_Default = VNil, param_Validation = None\<rparr>"

definition items_tool :: ToolConfig where
  "items_tool =
     \<lparr>tool_Name = ''get_item'', tool_Description = ''fetch one item'',
      tool_Endpoint = ''https://api.example.com/items'', tool_Method = ''GET'',
      tool_Headers = [], tool_QueryParams = [(''format'', ''json''), (''id'', ''0'')],
      tool_BodyTemplate = [], tool_ContentType = [],
      tool_Parameters = [id_param], tool_ReturnType = ''object'',
      tool_Retries = 2, tool_Auth = None, tool_Validation = None\<rparr>"

definition note_tool :: ToolConfig where
  "note_tool =
     \<lparr>tool_Name = ''ping_note'', tool_Description = ''send a fixed note'',
      tool_Endpoint = ''https://api.example.com/notes'', tool_Method = ''PUT'',
      tool_Headers = [], tool_QueryParams = [],
      tool_BodyTemplate = ''ping'', tool_ContentType = ''text/plain'',
      tool_Parameters = [], tool_ReturnType = ''string'',
      tool_Retries = 3, tool_Auth = None, tool_Validation = None\<rparr>"

text \<open>A GET tool whose responses must carry two fields.\<close>

definition checked_tool :: ToolConfig where
  "checked_tool =
     \<lparr>tool_Name = ''get_order'', tool_Description = ''fetch one order'',
      tool_Endpoint = ''https://api.example.com/orders'', tool_Method = ''GET'',
      tool_Headers = [], tool_QueryParams = [],
      tool_BodyTemplate = [], tool_ContentType = [],
      tool_Parameters = [], tool_ReturnType = ''object'',
      tool_Retries = 3, tool_Auth = None,
      tool_Validation = Some \<lparr>StatusCodes = [], RequiredFields = [''id'', ''name'']\<rparr>\<rparr>"

text \<open>
  Transports whose state is the number of requests they were sent: one that refuses every
  connection, one that answers 503 without a body, and one that answers 500 with a body.
  A handler with the tools above, a writer nothing has been written to, and the request
  of a tool call.
\<close>

definition refusing :: "nat transport" where
  "refusing = (\<lambda>n req. (Inl ''connection refused'', Suc n))"

definition unavailable :: "nat transport" where
  "unavailable = (\<lambda>n req. (Inr \<lparr>resp_StatusCode = 503, resp_Header = [], resp_Body = NoBody\<rparr>, Suc n))"

definition failing_upstream :: "nat transport" where
  "failing_upstream = (\<lambda>n req. (Inr \<lparr>resp_StatusCode = 500,
      resp_Header = [(''Content-Type'', [''text/plain''])],
      resp_Body = Stream ''upstream exploded'' False\<rparr>, Suc n))"

definition example_handler :: JSONRPCHandler where
  "example_handler =
     \<lparr>h_config = \<lparr>cfg_Server = \<lparr>server_Name = ''example'', server_Version = ''1.0.0''\<rparr>,
                  cfg_Tools = [items_tool, search_tool], cfg_Prompts = [], cfg_Resources = []\<rparr>,
      h_tools = map_of [(''get_item'', items_tool), (''search'', search_tool)]\<rparr>"

definition fresh_writer :: ResponseWriter where
  "fresh_writer = \<lparr>w_Header = [], w_Status = None, w_Body = None\<rparr>"

definition call_request :: "string \<Rightarrow> (string \<times> gvalue) list \<Rightarrow> JSONRPCRequest" where
  "call_request name arguments =
     \<lparr>rpc_JSONRPC = ''2.0'', rpc_ID = VFloat 1, rpc_Method = ''tools/call'',
      rpc_Params = VObject [(''name'', VString name), (''arguments'', VObject arguments)]\<rparr>"

section \<open>Parameter validation leaves the caller's entries alone\<close>

lemma map_index_assign:
  "map_assign m k v = Inr m' \<Longrightarrow> map_index m' k' = (if k' = k then Some v else map_index m k')"
  by (auto simp: map_assign_def map_index_def update_conv' split: option.splits)

lemma loop_keeps:
  "validateParameters_loop P ps a = (r, a') \<Longrightarrow> map_index a k = Some v \<Longrightarrow> map_index a' k = Some v"
proof (induction ps arbitrary: a)
  case Nil
  then show ?case by simp
next
  case (Cons p ps)
  show ?case
  proof (cases "map_index a (param_Name p)")
    case None
    with Cons.prems have ne: "k \<noteq> param_Name p" by auto
    show ?thesis
    proof (cases "\<not> param_Required p \<and> param_Default p \<noteq> VNil")
      case True
      show ?thesis
      proof (cases "map_assign a (param_Name p) (param_Default p)")
        case (Inl e)
        with None True Cons.prems show ?thesis by simp
      next
        case (Inr a1)
        from map_index_assign[OF Inr, of k] ne Cons.prems(2) have "map_index a1 k = Some v" by simp
        moreover from None True Inr Cons.prems(1) have "validateParameters_loop P ps a1 = (r, a')" by simp
        ultimately show ?thesis by (rule Cons.IH[rotated])
      qed
    next
      case False
      with None Cons.prems Cons.IH show ?thesis by (auto split: if_splits)
    qed
  next
    case (Some x)
    with Cons.prems Cons.IH show ?thesis by (auto split: option.splits)
  qed
qed

lemma loop_writes:
  "validateParameters_loop P ps a = (r, a') \<Longrightarrow> map_index a k = None \<Longrightarrow> map_index a' k = Some v \<Longrightarrow>
   \<exists>p \<in> set ps. param_Name p = k \<and> \<not> param_Required p \<and> param_Default p \<noteq> VNil \<and> v = param_Default p"
proof (induction ps arbitrary: a)
  case Nil
  then show ?case by simp
next
  case (Cons p ps)
  show ?case
  proof (cases "map_index a (param_Name p)")
    case None
    show ?thesis
    proof (cases "\<not> param_Required p \<and> param_Default p \<noteq> VNil")
      case True
      show ?thesis
      proof (cases "map_assign a (param_Name p) (param_Default p)")
        case (Inl e)
        with None True Cons.prems show ?thesis by simp
      next
        case (Inr a1)
        from None True Inr Cons.prems(1) have run: "validateParameters_loop P ps a1 = (r, a')" by simp
        show ?thesis
        proof (cases "k = param_Name p")
          case same: True
          with map_index_assign[OF Inr, of k] have "map_index a1 k = Some (param_Default p)" by simp
          from loop_keeps[OF run this] Cons.prems(3) have "v = param_Default p" by simp
          with same True show ?thesis by auto
        next
          case False
          with map_index_assign[OF Inr, of k] Cons.prems(2) have "map_index a1 k = None" by simp
          from Cons.IH[OF run this Cons.prems(3)] show ?thesis by auto
        qed
      qed
    next
      case False
      with None Cons.prems have "validateParameters_loop P ps a = (r, a') \<or> a' = a"
        by (auto split: if_splits)
      then show ?thesis
      proof
        assume "validateParameters_loop P ps a = (r, a')"
        from Cons.IH[OF this Cons.prems(2,3)] show ?thesis by auto
      next
        assume "a' = a"
        with Cons.prems show ?thesis by simp
      qed
    qed
  next
    case (Some x)
    with Cons.prems have "validateParameters_loop P ps a = (r, a') \<or> a' = a"
      by (auto split: option.splits)
    then show ?thesis
    proof
      assume "validateParameters_loop P ps a = (r, a')"
      from Cons.IH[OF this Cons.prems(2,3)] show ?thesis by auto
    next
      assume "a' = a"
      with Cons.prems show ?thesis by simp
    qed
  qed
qed

lemma number_string_parsed:
  "param_Type param = ''number'' \<Longrightarrow> validateParameterValue P param (VString s) = None \<Longrightarrow>
   \<exists>x. strconv_ParseFloat P s = Inr x"
  by (auto simp: validateParameterValue_def split: sum.splits)

text \<open>
  C10. Whatever \<^verbatim>\<open>validateParameters\<close> returns (nil, an error or a panic), every entry
  the caller supplied is still in the map with the value it had; a key that is in the map
  afterwards and was not before is the name of a declared parameter that is not required
  and has a default, and holds that default. In particular a string that a number
  parameter accepts has been parsed by \<^verbatim>\<open>strconv.ParseFloat\<close> and is still that string in
  the map.
\<close>

theorem validateParameters_frame:
  assumes "validateParameters P tool arguments = (r, arguments')"
  shows "(\<forall>k v. map_index arguments k = Some v \<longrightarrow> map_index arguments' k = Some v) \<and>
         (\<forall>k v. map_index arguments k = None \<longrightarrow> map_index arguments' k = Some v \<longrightarrow>
            (\<exists>param \<in> set (tool_Parameters tool).
               param_Name param = k \<and> \<not> param_Required param \<and>
               param_Default param \<noteq> VNil \<and> v = param_Default param)) \<and>
         (\<forall>param s. param \<in> set (tool_Parameters tool) \<longrightarrow> param_Type param = ''number'' \<longrightarrow>
            map_index arguments (param_Name param) = Some (VString s) \<longrightarrow>
            validateParameterValue P param (VString s) = None \<longrightarrow>
            (\<exists>x. strconv_ParseFloat P s = Inr x) \<and>
            map_index arguments' (param_Name param) = Some (VString s))"
proof -
  from assms have run: "validateParameters_loop P (tool_Parameters tool) arguments = (r, arguments')"
    by (simp add: validateParameters_def)
  have keeps: "map_index arguments' k = Some v" if "map_index arguments k = Some v" for k v
    using loop_keeps[OF run that] .
  have writes: "\<exists>param \<in> set (tool_Parameters tool).
                  param_Name param = k \<and> \<not> param_Required param \<and>
                  param_Default param \<noteq> VNil \<and> v = param_Default param"
    if "map_index arguments k = None" "map_index arguments' k = Some v" for k v
    using loop_writes[OF run that] .
  from keeps writes number_string_parsed show ?thesis by blast
qed

theorem validateParameters_frame_witness:
  "validateParameters example_platform search_tool (Some [(''count'', VString ''42'')])
     = (None, Some [(''count'', VString ''42''), (''page'', VString ''1'')]) \<and>
   validateParameterValue example_platform count_param (VString ''42'') = None \<and>
   map_index (Some [(''count'', VString ''42''), (''page'', VString ''1'')]) ''count''
     = Some (VString ''42'') \<and>
   (\<exists>x. strconv_ParseFloat example_platform ''42'' = Inr x) \<and>
   (\<exists>param \<in> set (tool_Parameters search_tool).
      param_Name param = ''page'' \<and> \<not> param_Required param \<and> param_Default param \<noteq> VNil \<and>
      VString ''1'' = param_Default param)"
proof -
  have run: "validateParameters example_platform search_tool (Some [(''count'', VString ''42'')])
               = (None, Some [(''count'', VString ''42''), (''page'', VString ''1'')])"
    by (simp add: validateParameters_def search_tool_def validateParameterValue_def count_param_def
        page_param_def example_platform_def example_ParseFloat_def map_index_def map_assign_def)
  have ok: "validateParameterValue example_platform count_param (VString ''42'') = None"
    by (simp add: validateParameterValue_def count_param_def example_platform_def example_ParseFloat_def)
  have decl: "count_param \<in> set (tool_Parameters search_tool)"
    by (simp add: search_tool_def)
  have ty: "param_Type count_param = ''number''"
    by (simp add: count_param_def)
  have given: "map_index (Some [(''count'', VString ''42'')]) (param_Name count_param) = Some (VString ''42'')"
    by (simp add: map_index_def count_param_def)
  from validateParameters_frame[OF run] decl ty given ok
  have "(\<exists>x. strconv_ParseFloat example_platform ''42'' = Inr x) \<and>
        map_index (Some [(''count'', VString ''42''), (''page'', VString ''1'')]) (param_Name count_param)
          = Some (VString ''42'')"
    by blast
  moreover
  have absent: "map_index (Some [(''count'', VString ''42'')]) ''page'' = None"
    and written: "map_index (Some [(''count'', VString ''42''), (''page'', VString ''1'')]) ''page''
                    = Some (VString ''1'')"
    by (simp_all add: map_index_def)
  from validateParameters_frame[OF run] absent written
  have "\<exists>param \<in> set (tool_Parameters search_tool).
          param_Name param = ''page'' \<and> \<not> param_Required param \<and> param_Default param \<noteq> VNil \<and>
          VString ''1'' = param_Default param"
    by blast
  ultimately show ?thesis using run ok by (simp add: count_param_def)
qed

section \<open>What the built request carries\<close>

lemma buildRequest_parts:
  assumes "buildRequest P tool params = Inr req"
  shows "\<exists>e u. expandEndpoint P tool params = Inr e \<and> url_Parse P e = Inr u \<and>
           buildQuery P tool params (url_Query u) = Inr (url_Query (req_URL req)) \<and>
           buildBody P tool params = Inr (req_Body req) \<and>
           buildHeaders P tool params (req_Body req) = Inr (req_Header req) \<and>
           req_Method req = strings_ToUpper (tool_Method tool)"
  using assms
  by (auto simp: buildRequest_def split: sum.splits option.splits)

lemma buildBody_cases:
  assumes "buildBody P tool params = Inr b"
  shows "(tool_BodyTemplate tool \<noteq> [] \<and> \<not> isGET tool \<longrightarrow>
            (\<exists>s. expandTemplate P (tool_BodyTemplate tool) params = Inr s \<and> b = Some s)) \<and>
         (\<not> isGET tool \<and> tool_BodyTemplate tool = [] \<and> map_len params > 0 \<longrightarrow>
            (\<exists>j. json_Marshal P params = Inr j \<and> b = Some j)) \<and>
         (isGET tool \<longrightarrow> b = None)"
  using assms
  by (auto simp: buildBody_def split: sum.splits if_splits)

lemma Values_Set_lookup:
  "map_of (Values_Set q key v) k = (if k = key then Some [v] else map_of q k)"
  by (simp add: Values_Set_def update_conv')



lemma addParameterQuery_other:
  "\<forall>p \<in> set ps. param_Name p \<noteq> k \<Longrightarrow> map_of (addParameterQuery P ps params q) k = map_of q k"
proof (induction ps arbitrary: q)
  case Nil
  then show ?case by simp
next
  case (Cons a ps)
  then show ?case
    by (cases "map_index params (param_Name a)") (auto simp: Values_Set_lookup)
qed


lemma expandQueryParams_other:
  "expandQueryParams P qps params q = Inr q' \<Longrightarrow> k \<notin> fst ` set qps \<Longrightarrow> map_of q' k = map_of q k"
proof (induction qps arbitrary: q)
  case Nil
  then show ?case by simp
next
  case (Cons a qps)
  obtain key t where a: "a = (key, t)" by (cases a)
  with Cons.prems obtain s where s: "expandTemplate P t params = Inr s"
    and run: "expandQueryParams P qps params (Values_Set q key s) = Inr q'"
    by (auto split: sum.splits)
  from Cons.prems a have "k \<notin> fst ` set qps" "k \<noteq> key" by auto
  with Cons.IH[OF run] show ?case by (simp add: Values_Set_lookup)
qed


lemmas example_defs =
  example_platform_def example_Marshal_def example_ParseFloat_def quoted_def
  search_tool_def items_tool_def note_tool_def id_param_def count_param_def page_param_def

lemmas request_defs =
  buildRequest_def expandEndpoint_def buildQuery_def buildBody_def buildHeaders_def
  expandTemplate_def isGET_def strings_ToUpper_def upper_char_def Values_Set_def Header_Set_def
  map_index_def map_len_def

lemma loop_agree:
  "\<forall>p \<in> set ps. map_of kvs1 (param_Name p) = map_of kvs2 (param_Name p) \<Longrightarrow>
   fst (validateParameters_loop P ps (Some kvs1)) = fst (validateParameters_loop P ps (Some kvs2))"
proof (induction ps arbitrary: kvs1 kvs2)
  case Nil
  then show ?case by simp
next
  case (Cons p ps)
  from Cons.prems have same: "map_of kvs1 (param_Name p) = map_of kvs2 (param_Name p)"
    and rest: "\<forall>q \<in> set ps. map_of kvs1 (param_Name q) = map_of kvs2 (param_Name q)" by auto
  have upd: "\<forall>q \<in> set ps. map_of (AList.update n d kvs1) (param_Name q) = map_of (AList.update n d kvs2) (param_Name q)" for n d
    using rest by (simp add: update_conv')
  show ?case
  proof (cases "map_of kvs2 (param_Name p)")
    case None
    with same Cons.IH[OF rest] Cons.IH[OF upd] show ?thesis
      by (simp add: map_index_def map_assign_def)
  next
    case (Some x)
    with same Cons.IH[OF rest] show ?thesis
      by (simp add: map_index_def split: option.splits)
  qed
qed

lemma map_index_len: "map_index params k = Some x \<Longrightarrow> map_len params > 0"
  by (cases params) (auto simp: map_index_def map_len_def)

lemma buildRequest_succeeds:
  assumes "expandEndpoint P tool params = Inr e" and "url_Parse P e = Inr u"
    and "buildQuery P tool params (url_Query u) = Inr q"
    and "buildBody P tool params = Inr b"
    and "http_NewRequest P (strings_ToUpper (tool_Method tool)) (u\<lparr>url_Query := q\<rparr>) = None"
    and "buildHeaders P tool params b = Inr h"
  shows "buildRequest P tool params =
           Inr \<lparr>req_Method = strings_ToUpper (tool_Method tool), req_URL = u\<lparr>url_Query := q\<rparr>,
                req_Body = b, req_Header = h\<rparr>"
  using assms by (simp add: buildRequest_def)






text \<open>
  C9. For an argument key that no declared parameter names: the verdict of validation is
  the same with and without that argument, and validation leaves it in the map as it was.
  A request built with a method other than GET and no body template has as its body the
  JSON encoding of the whole map, this argument included, and such a request is built
  whenever the endpoint, the query, the encoding and the headers are. A request built with
  the method GET has in its query, for this key, only what the endpoint's own query and
  the configured query parameters put there, and such a request is built whenever the
  endpoint, the configured query parameters and the headers are.
\<close>

theorem undeclared_argument:
  assumes undeclared: "\<forall>param \<in> set (tool_Parameters tool). param_Name param \<noteq> k"
  shows "fst (validateParameters P tool (Some (AList.update k v kvs))) = fst (validateParameters P tool (Some kvs)) \<and>
         (\<forall>arguments r arguments' x.
            validateParameters P tool arguments = (r, arguments') \<longrightarrow>
            map_index arguments k = Some x \<longrightarrow> map_index arguments' k = Some x) \<and>
         (\<forall>params req x.
            strings_ToUpper (tool_Method tool) \<noteq> ''GET'' \<longrightarrow> tool_BodyTemplate tool = [] \<longrightarrow>
            buildRequest P tool params = Inr req \<longrightarrow> map_index params k = Some x \<longrightarrow>
            (\<exists>j. json_Marshal P params = Inr j \<and> req_Body req = Some j)) \<and>
         (\<forall>params x e (u :: URL) q j h.
            strings_ToUpper (tool_Method tool) \<noteq> ''GET'' \<longrightarrow> tool_BodyTemplate tool = [] \<longrightarrow>
            map_index params k = Some x \<longrightarrow>
            expandEndpoint P tool params = Inr e \<longrightarrow> url_Parse P e = Inr u \<longrightarrow>
            buildQuery P tool params (url_Query u) = Inr q \<longrightarrow>
            http_NewRequest P (strings_ToUpper (tool_Method tool)) (u\<lparr>url_Query := q\<rparr>) = None \<longrightarrow>
            json_Marshal P params = Inr j \<longrightarrow> buildHeaders P tool params (Some j) = Inr h \<longrightarrow>
            buildRequest P tool params =
              Inr \<lparr>req_Method = strings_ToUpper (tool_Method tool), req_URL = u\<lparr>url_Query := q\<rparr>,
                   req_Body = Some j, req_Header = h\<rparr>) \<and>
         (\<forall>params req.
            strings_ToUpper (tool_Method tool) = ''GET'' \<longrightarrow> buildRequest P tool params = Inr req \<longrightarrow>
            (\<exists>e u q0. expandEndpoint P tool params = Inr e \<and> url_Parse P e = Inr u \<and>
                expandQueryParams P (tool_QueryParams tool) params (url_Query u) = Inr q0 \<and>
                map_of (url_Query (req_URL req)) k = map_of q0 k \<and>
                (k \<notin> fst ` set (tool_QueryParams tool) \<longrightarrow> map_of q0 k = map_of (url_Query u) k))) \<and>
         (\<forall>params e (u :: URL) q0 h.
            strings_ToUpper (tool_Method tool) = ''GET'' \<longrightarrow>
            expandEndpoint P tool params = Inr e \<longrightarrow> url_Parse P e = Inr u \<longrightarrow>
            expandQueryParams P (tool_QueryParams tool) params (url_Query u) = Inr q0 \<longrightarrow>
            http_NewRequest P ''GET''
              (u\<lparr>url_Query := addParameterQuery P (tool_Parameters tool) params q0\<rparr>) = None \<longrightarrow>
            buildHeaders P tool params None = Inr h \<longrightarrow>
            buildRequest P tool params =
              Inr \<lparr>req_Method = ''GET'',
                   req_URL = u\<lparr>url_Query := addParameterQuery P (tool_Parameters tool) params q0\<rparr>,
                   req_Body = None, req_Header = h\<rparr> \<and>
            map_of (addParameterQuery P (tool_Parameters tool) params q0) k = map_of q0 k)"
proof (intro conjI allI impI)
  from undeclared
  have "\<forall>p \<in> set (tool_Parameters tool). map_of (AList.update k v kvs) (param_Name p) = map_of kvs (param_Name p)"
    by (simp add: update_conv')
  from loop_agree[OF this]
  show "fst (validateParameters P tool (Some (AList.update k v kvs))) = fst (validateParameters P tool (Some kvs))"
    by (simp add: validateParameters_def)
next
  fix arguments r arguments' x
  assume "validateParameters P tool arguments = (r, arguments')" "map_index arguments k = Some x"
  then show "map_index arguments' k = Some x"
    by (simp add: validateParameters_def loop_keeps)
next
  fix params req x
  assume m: "strings_ToUpper (tool_Method tool) \<noteq> ''GET''" "tool_BodyTemplate tool = []"
    and built: "buildRequest P tool params = Inr req" and x: "map_index params k = Some x"
  from buildRequest_parts[OF built] have "buildBody P tool params = Inr (req_Body req)" by blast
  from buildBody_cases[OF this] m map_index_len[OF x]
  show "\<exists>j. json_Marshal P params = Inr j \<and> req_Body req = Some j"
    by (simp add: isGET_def)
next
  fix params x e and u :: URL and q j h
  assume m: "strings_ToUpper (tool_Method tool) \<noteq> ''GET''" "tool_BodyTemplate tool = []"
    and x: "map_index params k = Some x"
    and e: "expandEndpoint P tool params = Inr e" and u: "url_Parse P e = Inr u"
    and q: "buildQuery P tool params (url_Query u) = Inr q"
    and n: "http_NewRequest P (strings_ToUpper (tool_Method tool)) (u\<lparr>url_Query := q\<rparr>) = None"
    and j: "json_Marshal P params = Inr j" and h: "buildHeaders P tool params (Some j) = Inr h"
  from m j map_index_len[OF x] have b: "buildBody P tool params = Inr (Some j)"
    by (simp add: buildBody_def isGET_def)
  from buildRequest_succeeds[OF e u q b n h]
  show "buildRequest P tool params =
          Inr \<lparr>req_Method = strings_ToUpper (tool_Method tool), req_URL = u\<lparr>url_Query := q\<rparr>,
               req_Body = Some j, req_Header = h\<rparr>" .
next
  fix params req
  assume get: "strings_ToUpper (tool_Method tool) = ''GET''" and built: "buildRequest P tool params = Inr req"
  from buildRequest_parts[OF built] obtain e and u :: URL where
    e: "expandEndpoint P tool params = Inr e" and u: "url_Parse P e = Inr u" and
    q: "buildQuery P tool params (url_Query u) = Inr (url_Query (req_URL req))" by blast
  from q get obtain q0 where
    q0: "expandQueryParams P (tool_QueryParams tool) params (url_Query u) = Inr q0"
    and final: "url_Query (req_URL req) = addParameterQuery P (tool_Parameters tool) params q0"
    by (auto simp: buildQuery_def isGET_def split: sum.splits)
  from addParameterQuery_other[OF undeclared] final
  have "map_of (url_Query (req_URL req)) k = map_of q0 k" by simp
  moreover have "k \<notin> fst ` set (tool_QueryParams tool) \<longrightarrow> map_of q0 k = map_of (url_Query u) k"
    using expandQueryParams_other[OF q0] by blast
  ultimately show "\<exists>e u q0. expandEndpoint P tool params = Inr e \<and> url_Parse P e = Inr u \<and>
                expandQueryParams P (tool_QueryParams tool) params (url_Query u) = Inr q0 \<and>
                map_of (url_Query (req_URL req)) k = map_of q0 k \<and>
                (k \<notin> fst ` set (tool_QueryParams tool) \<longrightarrow> map_of q0 k = map_of (url_Query u) k)"
    using e u q0 by blast
next
  fix params e and u :: URL and q0 h
  assume get: "strings_ToUpper (tool_Method tool) = ''GET''"
    and e: "expandEndpoint P tool params = Inr e" and u: "url_Parse P e = Inr u"
    and q0: "expandQueryParams P (tool_QueryParams tool) params (url_Query u) = Inr q0"
    and new: "http_NewRequest P ''GET''
                (u\<lparr>url_Query := addParameterQuery P (tool_Parameters tool) params q0\<rparr>) = None"
    and h: "buildHeaders P tool params None = Inr h"
  from q0 get have q: "buildQuery P tool params (url_Query u) =
                      Inr (addParameterQuery P (tool_Parameters tool) params q0)"
    by (simp add: buildQuery_def isGET_def)
  from get have b: "buildBody P tool params = Inr None" by (simp add: buildBody_def isGET_def)
  from new get have n: "http_NewRequest P (strings_ToUpper (tool_Method tool))
                          (u\<lparr>url_Query := addParameterQuery P (tool_Parameters tool) params q0\<rparr>) = None"
    by simp
  from buildRequest_succeeds[OF e u q b n h] get
  show "buildRequest P tool params =
          Inr \<lparr>req_Method = ''GET'',
               req_URL = u\<lparr>url_Query := addParameterQuery P (tool_Parameters tool) params q0\<rparr>,
               req_Body = None, req_Header = h\<rparr>"
    by simp
  from addParameterQuery_other[OF undeclared]
  show "map_of (addParameterQuery P (tool_Parameters tool) params q0) k = map_of q0 k" by simp
qed

theorem undeclared_argument_witness:
  "validateParameters example_platform search_tool
     (Some [(''count'', VString ''42''), (''mode'', VString ''fast'')]) =
     (None, Some [(''count'', VString ''42''), (''mode'', VString ''fast''), (''page'', VString ''1'')]) \<and>
   fst (validateParameters example_platform search_tool (Some [(''count'', VString ''42'')])) = None \<and>
   buildRequest example_platform search_tool
     (Some [(''count'', VString ''42''), (''mode'', VString ''fast''), (''page'', VString ''1'')]) =
     Inr \<lparr>req_Method = ''POST'',
          req_URL = \<lparr>url_Location = ''https://api.example.com/search'', url_Query = []\<rparr>,
          req_Body = Some (''{'' @ quoted ''count'' @ '':'' @ quoted ''42'' @ '','' @
                           quoted ''mode'' @ '':'' @ quoted ''fast'' @ '','' @
                           quoted ''page'' @ '':'' @ quoted ''1'' @ ''}''),
          req_Header = [(''Content-Type'', ''application/json''), (''User-Agent'', ''MCP-Server/1.0.0''),
                        (''Accept'', ''application/json, text/plain, */*'')]\<rparr> \<and>
   validateParameters example_platform items_tool
     (Some [(''id'', VString ''42''), (''mode'', VString ''fast'')]) =
     (None, Some [(''id'', VString ''42''), (''mode'', VString ''fast'')]) \<and>
   buildRequest example_platform items_tool (Some [(''id'', VString ''42''), (''mode'', VString ''fast'')]) =
     Inr \<lparr>req_Method = ''GET'',
          req_URL = \<lparr>url_Location = ''https://api.example.com/items'',
                     url_Query = [(''format'', [''json'']), (''id'', [''42''])]\<rparr>,
          req_Body = None,
          req_Header = [(''User-Agent'', ''MCP-Server/1.0.0''),
                        (''Accept'', ''application/json, text/plain, */*'')]\<rparr> \<and>
   map_of [(''format'', [''json'']), (''id'', [''42''])] ''mode'' = None"
proof -
  let ?given = "Some [(''count'', VString ''42''), (''mode'', VString ''fast'')]"
  let ?valid = "Some [(''count'', VString ''42''), (''mode'', VString ''fast''), (''page'', VString ''1'')]"
  let ?items = "Some [(''id'', VString ''42''), (''mode'', VString ''fast'')]"
  let ?json = "''{'' @ quoted ''count'' @ '':'' @ quoted ''42'' @ '','' @
               quoted ''mode'' @ '':'' @ quoted ''fast'' @ '','' @
               quoted ''page'' @ '':'' @ quoted ''1'' @ ''}''"
  have post: "\<forall>param \<in> set (tool_Parameters search_tool). param_Name param \<noteq> ''mode''"
    by (simp add: search_tool_def count_param_def page_param_def)
  have get: "\<forall>param \<in> set (tool_Parameters items_tool). param_Name param \<noteq> ''mode''"
    by (simp add: items_tool_def id_param_def)
  have plain: "fst (validateParameters example_platform search_tool (Some [(''count'', VString ''42'')])) = None"
    by (simp add: validateParameters_def search_tool_def validateParameterValue_def count_param_def
        page_param_def example_platform_def example_ParseFloat_def map_index_def map_assign_def)
  have run: "validateParameters example_platform search_tool ?given = (None, ?valid)"
    by (simp add: validateParameters_def search_tool_def validateParameterValue_def count_param_def
        page_param_def example_platform_def example_ParseFloat_def map_index_def map_assign_def)
  have run_get: "validateParameters example_platform items_tool ?items = (None, ?items)"
    by (simp add: validateParameters_def items_tool_def validateParameterValue_def id_param_def
        example_platform_def map_index_def map_assign_def)
  have m: "strings_ToUpper (tool_Method search_tool) \<noteq> ''GET''" "tool_BodyTemplate search_tool = []"
    "strings_ToUpper (tool_Method search_tool) = ''POST''"
    by (simp_all add: search_tool_def strings_ToUpper_def upper_char_def)
  have there: "map_index ?given ''mode'' = Some (VString ''fast'')"
    by (simp add: map_index_def)
  have g: "strings_ToUpper (tool_Method items_tool) = ''GET''"
    by (simp add: items_tool_def strings_ToUpper_def upper_char_def)
  have s_url: "expandEndpoint example_platform search_tool ?valid = Inr ''https://api.example.com/search''"
    "url_Parse example_platform ''https://api.example.com/search'' =
       Inr \<lparr>url_Location = ''https://api.example.com/search'', url_Query = []\<rparr>"
    "buildQuery example_platform search_tool ?valid [] = Inr []"
    "http_NewRequest example_platform ''POST''
       \<lparr>url_Location = ''https://api.example.com/search'', url_Query = []\<rparr> = None"
    by (simp_all add: request_defs example_defs)
  have s_body: "json_Marshal example_platform ?valid = Inr ?json"
    by (simp add: example_defs List.map_filter_def)
  have s_head: "buildHeaders example_platform search_tool ?valid (Some ?json) =
       Inr [(''Content-Type'', ''application/json''), (''User-Agent'', ''MCP-Server/1.0.0''),
            (''Accept'', ''application/json, text/plain, */*'')]"
    by (simp add: request_defs example_defs)
  have g_url: "expandEndpoint example_platform items_tool ?items = Inr ''https://api.example.com/items''"
    "url_Parse example_platform ''https://api.example.com/items'' =
       Inr \<lparr>url_Location = ''https://api.example.com/items'', url_Query = []\<rparr>"
    "expandQueryParams example_platform (tool_QueryParams items_tool) ?items [] =
       Inr [(''format'', [''json'']), (''id'', [''0''])]"
    "addParameterQuery example_platform (tool_Parameters items_tool) ?items
       [(''format'', [''json'']), (''id'', [''0''])] = [(''format'', [''json'']), (''id'', [''42''])]"
    "http_NewRequest example_platform ''GET''
       \<lparr>url_Location = ''https://api.example.com/items'',
        url_Query = [(''format'', [''json'']), (''id'', [''42''])]\<rparr> = None"
    "buildHeaders example_platform items_tool ?items None =
       Inr [(''User-Agent'', ''MCP-Server/1.0.0''), (''Accept'', ''application/json, text/plain, */*'')]"
    by (simp_all add: request_defs example_defs)
  note on_post = undeclared_argument[OF post, of example_platform "VString ''fast''" "[(''count'', VString ''42'')]"]
  note on_get = undeclared_argument[OF get, of example_platform "VString ''fast''" "[]"]
  from on_post plain
  have 1: "fst (validateParameters example_platform search_tool ?given) = None"
    by simp
  from on_post[THEN conjunct2, THEN conjunct1, rule_format, OF run there]
  have 2: "map_index ?valid ''mode'' = Some (VString ''fast'')" .
  note body = on_post[THEN conjunct2, THEN conjunct2, THEN conjunct2, THEN conjunct1]
  from body[rule_format, OF m(1) m(2) 2 s_url(1) s_url(2)] s_url s_body s_head m(3)
  have 3: "buildRequest example_platform search_tool ?valid =
     Inr \<lparr>req_Method = ''POST'',
          req_URL = \<lparr>url_Location = ''https://api.example.com/search'', url_Query = []\<rparr>,
          req_Body = Some ?json,
          req_Header = [(''Content-Type'', ''application/json''), (''User-Agent'', ''MCP-Server/1.0.0''),
                        (''Accept'', ''application/json, text/plain, */*'')]\<rparr>"
    by simp
  note query = on_get[THEN conjunct2, THEN conjunct2, THEN conjunct2, THEN conjunct2, THEN conjunct2]
  from query[rule_format, OF g g_url(1) g_url(2)] g_url
  have 4: "buildRequest example_platform items_tool ?items =
     Inr \<lparr>req_Method = ''GET'',
          req_URL = \<lparr>url_Location = ''https://api.example.com/items'',
                     url_Query = [(''format'', [''json'']), (''id'', [''42''])]\<rparr>,
          req_Body = None,
          req_Header = [(''User-Agent'', ''MCP-Server/1.0.0''),
                        (''Accept'', ''application/json, text/plain, */*'')]\<rparr> \<and>
      map_of [(''format'', [''json'']), (''id'', [''42''])] ''mode'' =
      map_of [(''format'', [''json'']), (''id'', [''0''])] ''mode''"
    by simp
  from run plain 3 run_get 4 show ?thesis by simp
qed

section \<open>The attempts of the executor\<close>

declare attempts.simps [simp del]

lemma attempts_done:
  "tool_Retries tool < attempt \<Longrightarrow>
   attempts P Do tool params attempt resp lastErr net = (Inr (resp, lastErr), net)"
  by (subst attempts.simps) simp

lemma attempts_step:
  assumes "attempt \<le> tool_Retries tool" "buildRequest P tool params = Inr req"
    "unsuccessful tool (fst (Do net req))"
  shows "attempts P Do tool params attempt resp lastErr net =
         attempts P Do tool params (attempt + 1) (fst (afterAttempt (fst (Do net req))))
           (snd (afterAttempt (fst (Do net req)))) (snd (Do net req))"
  using assms
  by (subst attempts.simps) (auto simp: unsuccessful_def afterAttempt_def split: sum.splits prod.splits)

lemma attempts_exhausted:
  assumes build: "buildRequest P tool params = Inr req"
  shows "attempt \<le> tool_Retries tool \<Longrightarrow> nat (tool_Retries tool - attempt) = k \<Longrightarrow>
         (\<forall>i \<le> k. unsuccessful tool (fst (Do (sends Do req i net) req))) \<Longrightarrow>
         attempts P Do tool params attempt resp lastErr net =
           (Inr (afterAttempt (fst (Do (sends Do req k net) req))), sends Do req (Suc k) net)"
proof (induction k arbitrary: attempt resp lastErr net)
  case 0
  then have last: "attempt = tool_Retries tool" by simp
  from 0 have u: "unsuccessful tool (fst (Do net req))" by simp
  have "attempts P Do tool params attempt resp lastErr net =
        attempts P Do tool params (attempt + 1) (fst (afterAttempt (fst (Do net req))))
          (snd (afterAttempt (fst (Do net req)))) (snd (Do net req))"
    using "0.prems"(1) build u by (rule attempts_step)
  then show ?case by (simp add: last attempts_done)
next
  case (Suc k)
  from Suc.prems(3) have u: "unsuccessful tool (fst (Do (sends Do req 0 net) req))" by blast
  then have u: "unsuccessful tool (fst (Do net req))" by simp
  from Suc.prems have le: "attempt + 1 \<le> tool_Retries tool" and k: "nat (tool_Retries tool - (attempt + 1)) = k"
    by auto
  have rest: "\<forall>i \<le> k. unsuccessful tool (fst (Do (sends Do req i (snd (Do net req))) req))"
  proof (intro allI impI)
    fix i assume "i \<le> k"
    then have "Suc i \<le> Suc k" by simp
    with Suc.prems(3) have "unsuccessful tool (fst (Do (sends Do req (Suc i) net) req))" by blast
    then show "unsuccessful tool (fst (Do (sends Do req i (snd (Do net req))) req))" by simp
  qed
  have "attempts P Do tool params attempt resp lastErr net =
        attempts P Do tool params (attempt + 1) (fst (afterAttempt (fst (Do net req))))
          (snd (afterAttempt (fst (Do net req)))) (snd (Do net req))"
    using Suc.prems(1) build u by (rule attempts_step)
  with Suc.IH[OF le k rest] show ?case by simp
qed

lemma attempts_build_fails:
  "attempt \<le> tool_Retries tool \<Longrightarrow> buildRequest P tool params = Inl err \<Longrightarrow>
   attempts P Do tool params attempt resp lastErr net = (Inl (''failed to build request: '' @ err), net)"
  by (subst attempts.simps) simp

lemma ExecuteRequest_exhausted:
  assumes r: "0 \<le> tool_Retries tool" and build: "buildRequest P tool params = Inr req"
    and never: "\<forall>i \<le> nat (tool_Retries tool). unsuccessful tool (fst (Do (sends Do req i net) req))"
  shows "ExecuteRequest P Do tool params net =
           (case fst (Do (sends Do req (nat (tool_Retries tool)) net) req) of
              Inl e \<Rightarrow>
                Inl (Error (''request failed after '' @ Itoa (tool_Retries tool + 1) @ '' attempts: '' @ e))
            | Inr rsp \<Rightarrow>
                (case processResponse P (rsp\<lparr>resp_Body := Body_Close (resp_Body rsp)\<rparr>) tool of
                   Inl err \<Rightarrow> Inl (Error (''failed to process response: '' @ err))
                 | Inr apiResp \<Rightarrow> Inr apiResp),
            sends Do req (nat (tool_Retries tool) + 1) net)"
proof -
  from r have "(0 :: int) \<le> tool_Retries tool" "nat (tool_Retries tool - 0) = nat (tool_Retries tool)" by simp_all
  from attempts_exhausted[OF build this never]
  have "attempts P Do tool params 0 None None net =
          (Inr (afterAttempt (fst (Do (sends Do req (nat (tool_Retries tool)) net) req))),
           sends Do req (Suc (nat (tool_Retries tool))) net)" .
  then show ?thesis
    by (simp add: ExecuteRequest_def afterAttempt_def split: sum.splits)
qed

lemma logged_outcome: "fst (logged Do (net, reqs) req) = fst (Do net req)"
  by (simp add: logged_def split: prod.splits)

lemma logged_state: "snd (logged Do (net, reqs) req) = (snd (Do net req), reqs @ [req])"
  by (simp add: logged_def split: prod.splits)

lemma sends_logged:
  "sends (logged Do) req k (net, reqs) = (sends Do req k net, reqs @ replicate k req)"
proof (induction k arbitrary: net reqs)
  case 0
  then show ?case by simp
next
  case (Suc k)
  then show ?case by (simp add: logged_state replicate_app_Cons_same)
qed

lemma refused_request:
  "buildRequest example_platform items_tool (Some [(''id'', VString ''42'')]) =
     Inr \<lparr>req_Method = ''GET'',
          req_URL = \<lparr>url_Location = ''https://api.example.com/items'',
                     url_Query = [(''format'', [''json'']), (''id'', [''42''])]\<rparr>,
          req_Body = None,
          req_Header = [(''User-Agent'', ''MCP-Server/1.0.0''),
                        (''Accept'', ''application/json, text/plain, */*'')]\<rparr>"
  by (simp add: request_defs example_defs)

lemma sends_refusing: "sends refusing req k n = n + k"
  by (induction k arbitrary: n) (simp_all add: refusing_def)

text \<open>
  C3. With \<^verbatim>\<open>retries = r\<close>, \<open>0 \<le> r\<close>, a request that builds, and a transport none of
  whose answers to the first \<open>r + 1\<close> sends of that request is classified successful:
  \<^verbatim>\<open>ExecuteRequest\<close> returns what it makes of the answer to send number \<open>r + 1\<close> (a network
  error is reported as the failure of \<open>r + 1\<close> attempts, a response is processed with its
  body closed), it leaves the transport in the state that exactly \<open>r + 1\<close> sends of that
  request lead to, and a transport that keeps the requests it is sent has kept that
  request exactly \<open>r + 1\<close> times.
\<close>

theorem never_succeeding_attempts:
  assumes "0 \<le> tool_Retries tool" and "buildRequest P tool params = Inr req"
    and "\<forall>i \<le> nat (tool_Retries tool). unsuccessful tool (fst (Do (sends Do req i net) req))"
  shows "ExecuteRequest P Do tool params net =
           (case fst (Do (sends Do req (nat (tool_Retries tool)) net) req) of
              Inl e \<Rightarrow>
                Inl (Error (''request failed after '' @ Itoa (tool_Retries tool + 1) @ '' attempts: '' @ e))
            | Inr rsp \<Rightarrow>
                (case processResponse P (rsp\<lparr>resp_Body := Body_Close (resp_Body rsp)\<rparr>) tool of
                   Inl err \<Rightarrow> Inl (Error (''failed to process response: '' @ err))
                 | Inr apiResp \<Rightarrow> Inr apiResp),
            sends Do req (nat (tool_Retries tool) + 1) net) \<and>
         snd (snd (ExecuteRequest P (logged Do) tool params (net, []))) =
           replicate (nat (tool_Retries tool) + 1) req"
proof
  from assms show "ExecuteRequest P Do tool params net =
           (case fst (Do (sends Do req (nat (tool_Retries tool)) net) req) of
              Inl e \<Rightarrow>
                Inl (Error (''request failed after '' @ Itoa (tool_Retries tool + 1) @ '' attempts: '' @ e))
            | Inr rsp \<Rightarrow>
                (case processResponse P (rsp\<lparr>resp_Body := Body_Close (resp_Body rsp)\<rparr>) tool of
                   Inl err \<Rightarrow> Inl (Error (''failed to process response: '' @ err))
                 | Inr apiResp \<Rightarrow> Inr apiResp),
            sends Do req (nat (tool_Retries tool) + 1) net)"
    by (rule ExecuteRequest_exhausted)
next
  from assms(3)
  have never: "\<forall>i \<le> nat (tool_Retries tool).
                 unsuccessful tool (fst (logged Do (sends (logged Do) req i (net, [])) req))"
    by (simp add: sends_logged logged_outcome)
  from ExecuteRequest_exhausted[where Do = "logged Do" and req = req and net = "(net, [])", OF assms(1,2) never]
  show "snd (snd (ExecuteRequest P (logged Do) tool params (net, []))) =
          replicate (nat (tool_Retries tool) + 1) req"
    by (simp add: sends_logged del: sends.simps replicate.simps)
qed

theorem never_succeeding_attempts_witness:
  "tool_Retries items_tool = 2 \<and>
   buildRequest example_platform items_tool (Some [(''id'', VString ''42'')]) =
     Inr \<lparr>req_Method = ''GET'',
          req_URL = \<lparr>url_Location = ''https://api.example.com/items'',
                     url_Query = [(''format'', [''json'']), (''id'', [''42''])]\<rparr>,
          req_Body = None,
          req_Header = [(''User-Agent'', ''MCP-Server/1.0.0''),
                        (''Accept'', ''application/json, text/plain, */*'')]\<rparr> \<and>
   ExecuteRequest example_platform refusing items_tool (Some [(''id'', VString ''42'')]) 0 =
     (Inl (Error ''request failed after 3 attempts: connection refused''), 3) \<and>
   snd (snd (ExecuteRequest example_platform (logged refusing) items_tool (Some [(''id'', VString ''42'')]) (0, []))) =
     [\<lparr>req_Method = ''GET'',
       req_URL = \<lparr>url_Location = ''https://api.example.com/items'',
                  url_Query = [(''format'', [''json'']), (''id'', [''42''])]\<rparr>,
       req_Body = None,
       req_Header = [(''User-Agent'', ''MCP-Server/1.0.0''),
                     (''Accept'', ''application/json, text/plain, */*'')]\<rparr>,
      \<lparr>req_Method = ''GET'',
       req_URL = \<lparr>url_Location = ''https://api.example.com/items'',
                  url_Query = [(''format'', [''json'']), (''id'', [''42''])]\<rparr>,
       req_Body = None,
       req_Header = [(''User-Agent'', ''MCP-Server/1.0.0''),
                     (''Accept'', ''application/json, text/plain, */*'')]\<rparr>,
      \<lparr>req_Method = ''GET'',
       req_URL = \<lparr>url_Location = ''https://api.example.com/items'',
                  url_Query = [(''format'', [''json'']), (''id'', [''42''])]\<rparr>,
       req_Body = None,
       req_Header = [(''User-Agent'', ''MCP-Server/1.0.0''),
                     (''Accept'', ''application/json, text/plain, */*'')]\<rparr>]"
proof -
  let ?req = "\<lparr>req_Method = ''GET'',
       req_URL = \<lparr>url_Location = ''https://api.example.com/items'',
                  url_Query = [(''format'', [''json'']), (''id'', [''42''])]\<rparr>,
       req_Body = None,
       req_Header = [(''User-Agent'', ''MCP-Server/1.0.0''),
                     (''Accept'', ''application/json, text/plain, */*'')]\<rparr>"
  have two: "tool_Retries items_tool = 2" by (simp add: items_tool_def)
  then have r: "0 \<le> tool_Retries items_tool" by simp
  have never: "\<forall>i \<le> nat (tool_Retries items_tool).
                 unsuccessful items_tool (fst (refusing (sends refusing ?req i 0) ?req))"
    by (simp add: unsuccessful_def refusing_def)
  have three: "replicate 3 ?req = [?req, ?req, ?req]" by (simp add: numeral_3_eq_3)
  have shown: "Itoa 3 = ''3''" by (simp add: Itoa_def)
  have answer: "fst (refusing n req) = Inl ''connection refused''" for n req
    by (simp add: refusing_def)
  from never_succeeding_attempts[where Do = refusing and net = 0, OF r refused_request never]
  have "ExecuteRequest example_platform refusing items_tool (Some [(''id'', VString ''42'')]) 0 =
          (Inl (Error ''request failed after 3 attempts: connection refused''), 3) \<and>
        snd (snd (ExecuteRequest example_platform (logged refusing) items_tool
                    (Some [(''id'', VString ''42'')]) (0, []))) = replicate 3 ?req"
    by (simp add: two sends_refusing answer shown del: sends.simps replicate.simps)
  with two refused_request three show ?thesis by simp
qed

section \<open>The last response of an exhausted call\<close>

lemma paged_request:
  "buildRequest example_platform search_tool (Some [(''page'', VString ''1'')]) =
     Inr \<lparr>req_Method = ''POST'',
          req_URL = \<lparr>url_Location = ''https://api.example.com/search'', url_Query = []\<rparr>,
          req_Body = Some (''{'' @ quoted ''page'' @ '':'' @ quoted ''1'' @ ''}''),
          req_Header = [(''Content-Type'', ''application/json''), (''User-Agent'', ''MCP-Server/1.0.0''),
                        (''Accept'', ''application/json, text/plain, */*'')]\<rparr>"
  by (simp add: request_defs example_defs List.map_filter_def)

lemma sends_failing_upstream: "sends failing_upstream req k n = n + k"
  by (induction k arbitrary: n) (simp_all add: failing_upstream_def)

lemma closed_body_run:
  "ExecuteRequest example_platform failing_upstream search_tool (Some [(''page'', VString ''1'')]) 0 =
     (Inl (Error ''failed to process response: failed to read response body: http: read on closed response body''), 2)"
proof -
  have r: "0 \<le> tool_Retries search_tool" by (simp add: search_tool_def)
  have never: "\<forall>i \<le> nat (tool_Retries search_tool). unsuccessful search_tool (fst (failing_upstream
     (sends failing_upstream
        \<lparr>req_Method = ''POST'',
          req_URL = \<lparr>url_Location = ''https://api.example.com/search'', url_Query = []\<rparr>,
          req_Body = Some (''{'' @ quoted ''page'' @ '':'' @ quoted ''1'' @ ''}''),
          req_Header = [(''Content-Type'', ''application/json''), (''User-Agent'', ''MCP-Server/1.0.0''),
                        (''Accept'', ''application/json, text/plain, */*'')]\<rparr> i 0)
     \<lparr>req_Method = ''POST'',
          req_URL = \<lparr>url_Location = ''https://api.example.com/search'', url_Query = []\<rparr>,
          req_Body = Some (''{'' @ quoted ''page'' @ '':'' @ quoted ''1'' @ ''}''),
          req_Header = [(''Content-Type'', ''application/json''), (''User-Agent'', ''MCP-Server/1.0.0''),
                        (''Accept'', ''application/json, text/plain, */*'')]\<rparr>))"
    by (simp add: unsuccessful_def failing_upstream_def isSuccessStatusCode_def search_tool_def)
  have answer: "fst (failing_upstream n req) =
      Inr \<lparr>resp_StatusCode = 500, resp_Header = [(''Content-Type'', [''text/plain''])],
           resp_Body = Stream ''upstream exploded'' False\<rparr>" for n req
    by (simp add: failing_upstream_def)
  have one: "tool_Retries search_tool = 1" by (simp add: search_tool_def)
  from ExecuteRequest_exhausted[where Do = failing_upstream and net = 0, OF r paged_request never]
  show ?thesis
    by (simp add: one sends_failing_upstream answer processResponse_def del: sends.simps)
qed

lemma open_body_processed:
  "processResponse example_platform
     \<lparr>resp_StatusCode = 500, resp_Header = [(''Content-Type'', [''text/plain''])],
      resp_Body = Stream ''upstream exploded'' False\<rparr> search_tool =
   Inr \<lparr>api_StatusCode = 500, api_Headers = [(''Content-Type'', ''text/plain'')],
        api_Body = ''upstream exploded'', api_Data = VNil\<rparr>"
  by (simp add: processResponse_def search_tool_def parseData_def Header_Get_def)

lemma exhausted_network_error:
  assumes "0 \<le> tool_Retries tool" and "buildRequest P tool params = Inr req"
    and "\<forall>i \<le> nat (tool_Retries tool). unsuccessful tool (fst (Do (sends Do req i net) req))"
    and "fst (Do (sends Do req (nat (tool_Retries tool)) net) req) = Inl e"
  shows "fst (ExecuteRequest P Do tool params net) =
           Inl (Error (''request failed after '' @ Itoa (tool_Retries tool + 1) @ '' attempts: '' @ e))"
  using ExecuteRequest_exhausted[where Do = Do and req = req, OF assms(1-3)] assms(4) by simp

lemma exhausted_stream_unreadable:
  assumes "0 \<le> tool_Retries tool" and "buildRequest P tool params = Inr req"
    and "\<forall>i \<le> nat (tool_Retries tool). unsuccessful tool (fst (Do (sends Do req i net) req))"
    and "fst (Do (sends Do req (nat (tool_Retries tool)) net) req) = Inr rsp" and "resp_Body rsp = Stream s c"
  shows "fst (ExecuteRequest P Do tool params net) =
           Inl (Error ''failed to process response: failed to read response body: http: read on closed response body'')"
  using ExecuteRequest_exhausted[where Do = Do and req = req, OF assms(1-3)] assms(4,5)
  by (simp add: processResponse_def)

text \<open>
  C4. The claim: when the attempts are exhausted and the last one produced a response, that
  response goes on to \<^verbatim>\<open>processResponse\<close> with its status and body intact. On the code:
  a tool with \<^verbatim>\<open>retries = 1\<close> whose upstream answers 500 with the body
  \<^verbatim>\<open>upstream exploded\<close>. The loop closes the body of every unsuccessful response, the
  last one too, so \<^verbatim>\<open>processResponse\<close> reads a closed body and the call fails after two
  sends; the same response, body open, would have been processed into an outcome with
  status 500 and that body.
\<close>

theorem exhausted_response_body_closed:
  "ExecuteRequest example_platform failing_upstream search_tool (Some [(''page'', VString ''1'')]) 0 =
     (Inl (Error ''failed to process response: failed to read response body: http: read on closed response body''), 2) \<and>
   processResponse example_platform
     \<lparr>resp_StatusCode = 500, resp_Header = [(''Content-Type'', [''text/plain''])],
      resp_Body = Stream ''upstream exploded'' False\<rparr> search_tool =
   Inr \<lparr>api_StatusCode = 500, api_Headers = [(''Content-Type'', ''text/plain'')],
        api_Body = ''upstream exploded'', api_Data = VNil\<rparr>"
  using closed_body_run open_body_processed by simp

section \<open>Required fields of the response\<close>

lemma validateResponse_payload:
  assumes "RequiredFields validation \<noteq> []"
    and "StatusCodes validation = [] \<or> api_StatusCode api \<in> set (StatusCodes validation)"
  shows "validateResponse api validation =
           (case api_Data api of
              VNil \<Rightarrow> None
            | VObject data \<Rightarrow>
                (case List.find (\<lambda>field. map_of data field = None) (RequiredFields validation) of
                   Some field \<Rightarrow> Some (''required field '' @ field @ '' missing from response'')
                 | None \<Rightarrow> None)
            | _ \<Rightarrow> Some ''response is not a JSON object'')"
  using assms by (auto simp: validateResponse_def split: gvalue.splits)

lemma validateResponse_accepts:
  assumes "RequiredFields validation \<noteq> []" and "validateResponse api validation = None"
  shows "api_Data api = VNil \<or>
         (\<exists>data. api_Data api = VObject data \<and> (\<forall>field \<in> set (RequiredFields validation). map_of data field \<noteq> None))"
  using assms
  by (auto simp: validateResponse_def find_None_iff split: gvalue.splits if_splits option.splits)

text \<open>
  C5 (as amended). Under a validation descriptor with required fields: an outcome that
  \<^verbatim>\<open>processResponse\<close> returns has no structured payload or has a JSON object holding
  every required field; and when the body can be read and the status passes the allow-list,
  the result is decided by the parsed payload: none (content type not JSON, empty body, parse
  failure or \<^verbatim>\<open>null\<close>) is accepted without a look at the fields, an object is rejected
  with the name of the first required field it lacks, any other value is rejected as not
  a JSON object.
\<close>

theorem required_fields_on_payload:
  assumes v: "tool_Validation tool = Some validation" and f: "RequiredFields validation \<noteq> []"
  shows "(\<forall>api. processResponse P resp tool = Inr api \<longrightarrow>
            api_Data api = VNil \<or>
            (\<exists>data. api_Data api = VObject data \<and>
               (\<forall>field \<in> set (RequiredFields validation). map_of data field \<noteq> None))) \<and>
         (\<forall>bodyBytes.
            io_ReadAll (resp_Body resp) = Inr bodyBytes \<longrightarrow>
            StatusCodes validation = [] \<or> resp_StatusCode resp \<in> set (StatusCodes validation) \<longrightarrow>
            processResponse P resp tool =
              (case parseData P (resp_Header resp) bodyBytes of
                 VNil \<Rightarrow>
                   Inr \<lparr>api_StatusCode = resp_StatusCode resp,
                        api_Headers = copyHeaders (resp_Header resp) [],
                        api_Body = bodyBytes, api_Data = VNil\<rparr>
               | VObject data \<Rightarrow>
                   (case List.find (\<lambda>field. map_of data field = None) (RequiredFields validation) of
                      Some field \<Rightarrow>
                        Inl (''response validation failed: required field '' @ field @ '' missing from response'')
                    | None \<Rightarrow>
                        Inr \<lparr>api_StatusCode = resp_StatusCode resp,
                             api_Headers = copyHeaders (resp_Header resp) [],
                             api_Body = bodyBytes, api_Data = VObject data\<rparr>)
               | _ \<Rightarrow> Inl ''response validation failed: response is not a JSON object''))"
proof (intro conjI allI impI)
  fix api
  assume ok: "processResponse P resp tool = Inr api"
  with v have "validateResponse api validation = None"
    by (auto simp: processResponse_def Let_def split: sum.splits option.splits)
  from validateResponse_accepts[OF f this]
  show "api_Data api = VNil \<or>
        (\<exists>data. api_Data api = VObject data \<and>
           (\<forall>field \<in> set (RequiredFields validation). map_of data field \<noteq> None))" .
next
  fix bodyBytes
  assume rd: "io_ReadAll (resp_Body resp) = Inr bodyBytes"
    and st: "StatusCodes validation = [] \<or> resp_StatusCode resp \<in> set (StatusCodes validation)"
  let ?api = "\<lparr>api_StatusCode = resp_StatusCode resp,
               api_Headers = copyHeaders (resp_Header resp) [],
               api_Body = bodyBytes, api_Data = parseData P (resp_Header resp) bodyBytes\<rparr>"
  from st have "StatusCodes validation = [] \<or> api_StatusCode ?api \<in> set (StatusCodes validation)" by simp
  note vr = validateResponse_payload[OF f this]
  show "processResponse P resp tool =
              (case parseData P (resp_Header resp) bodyBytes of
                 VNil \<Rightarrow>
                   Inr \<lparr>api_StatusCode = resp_StatusCode resp,
                        api_Headers = copyHeaders (resp_Header resp) [],
                        api_Body = bodyBytes, api_Data = VNil\<rparr>
               | VObject data \<Rightarrow>
                   (case List.find (\<lambda>field. map_of data field = None) (RequiredFields validation) of
                      Some field \<Rightarrow>
                        Inl (''response validation failed: required field '' @ field @ '' missing from response'')
                    | None \<Rightarrow>
                        Inr \<lparr>api_StatusCode = resp_StatusCode resp,
                             api_Headers = copyHeaders (resp_Header resp) [],
                             api_Body = bodyBytes, api_Data = VObject data\<rparr>)
               | _ \<Rightarrow> Inl ''response validation failed: response is not a JSON object'')"
    using v rd vr
    by (cases "parseData P (resp_Header resp) bodyBytes")
       (auto simp: processResponse_def Let_def split: option.splits)
qed

theorem required_fields_on_payload_witness:
  "tool_Validation checked_tool = Some \<lparr>StatusCodes = [], RequiredFields = [''id'', ''name'']\<rparr> \<and>
   io_ReadAll (Stream (''{'' @ quoted ''id'' @ '':'' @ quoted ''42'' @ ''}'') False)
     = Inr (''{'' @ quoted ''id'' @ '':'' @ quoted ''42'' @ ''}'') \<and>
   processResponse example_platform
     \<lparr>resp_StatusCode = 200, resp_Header = [(''Content-Type'', [''application/json''])],
      resp_Body = Stream (''{'' @ quoted ''id'' @ '':'' @ quoted ''42'' @ ''}'') False\<rparr> checked_tool =
   Inl ''response validation failed: required field name missing from response''"
proof -
  have v: "tool_Validation checked_tool = Some \<lparr>StatusCodes = [], RequiredFields = [''id'', ''name'']\<rparr>"
    by (simp add: checked_tool_def)
  have f: "RequiredFields \<lparr>StatusCodes = [], RequiredFields = [''id'', ''name'']\<rparr> \<noteq> []" by simp
  have rd: "io_ReadAll (resp_Body \<lparr>resp_StatusCode = 200, resp_Header = [(''Content-Type'', [''application/json''])],
      resp_Body = Stream (''{'' @ quoted ''id'' @ '':'' @ quoted ''42'' @ ''}'') False\<rparr>)
     = Inr (''{'' @ quoted ''id'' @ '':'' @ quoted ''42'' @ ''}'')" by simp
  have p: "parseData example_platform [(''Content-Type'', [''application/json''])]
             (''{'' @ quoted ''id'' @ '':'' @ quoted ''42'' @ ''}'') = VObject [(''id'', VString ''42'')]"
    by (simp add: parseData_def Header_Get_def example_platform_def example_Unmarshal_def quoted_def)
  from required_fields_on_payload[OF v f, of example_platform
      "\<lparr>resp_StatusCode = 200, resp_Header = [(''Content-Type'', [''application/json''])],
      resp_Body = Stream (''{'' @ quoted ''id'' @ '':'' @ quoted ''42'' @ ''}'') False\<rparr>"] rd p
  have "processResponse example_platform
     \<lparr>resp_StatusCode = 200, resp_Header = [(''Content-Type'', [''application/json''])],
      resp_Body = Stream (''{'' @ quoted ''id'' @ '':'' @ quoted ''42'' @ ''}'') False\<rparr> checked_tool =
   Inl ''response validation failed: required field name missing from response''"
    by simp
  with v rd show ?thesis by simp
qed

text \<open>
  C5 as stated fails: a response whose body does not parse as JSON is accepted by a
  descriptor that requires the fields \<^verbatim>\<open>id\<close> and \<^verbatim>\<open>name\<close>.
\<close>

theorem unparsed_body_accepted:
  "processResponse example_platform
     \<lparr>resp_StatusCode = 200, resp_Header = [(''Content-Type'', [''application/json''])],
      resp_Body = Stream ''<html>'' False\<rparr> checked_tool =
   Inr \<lparr>api_StatusCode = 200, api_Headers = [(''Content-Type'', ''application/json'')],
        api_Body = ''<html>'', api_Data = VNil\<rparr>"
  by (simp add: processResponse_def checked_tool_def parseData_def Header_Get_def validateResponse_def
      example_platform_def example_Unmarshal_def quoted_def)

section \<open>The transport status of the dispatcher\<close>

lemma delivered_writeError: "delivered (writeError P w i c m d)"
  by (simp add: delivered_def writeError_def)

lemma delivered_writeSuccess: "delivered (writeSuccess P w i (VObject x))"
  by (simp add: delivered_def writeSuccess_def)

lemma delivered_handleToolsCall:
  "handleToolsCall P D Do h w req net = (Inr w', net') \<Longrightarrow> delivered w'"
  by (auto simp: handleToolsCall_def delivered_writeError delivered_writeSuccess
      split: sum.splits prod.splits error.splits if_splits)

lemma delivered_handlers:
  "delivered (handleInitialize P h w req)"
  "delivered (handleInitialized P w req)"
  "delivered (handleToolsList P h w req)"
  "delivered (handlePromptsList P h w req)"
  "delivered (handlePromptsGet P D h w req)"
  "delivered (handleResourcesList P h w req)"
  "delivered (handleResourcesRead P D h w req)"
  "delivered (handlePing P w req)"
  by (auto simp: handleInitialize_def handleInitialized_def handleToolsList_def handlePromptsList_def
      handlePromptsGet_def handleResourcesList_def handleResourcesRead_def handlePing_def Let_def
      delivered_writeError delivered_writeSuccess split: option.splits prod.splits)

text \<open>
  C8. Whatever \<^verbatim>\<open>ServeHTTP\<close> returns without a panic: either it wrote no JSON-RPC response,
  which is the answer 204 to OPTIONS, or it wrote one with the status 200, the marker
  \<^verbatim>\<open>2.0\<close> and exactly one of result and error.
\<close>

theorem ServeHTTP_status:
  assumes "ServeHTTP P D Do h r net = (Inr w, net')"
  shows "(case w_Body w of
            None \<Rightarrow> http_Method r = ''OPTIONS'' \<and> w_Status w = Some 204
          | Some response \<Rightarrow>
              w_Status w = Some 200 \<and> res_JSONRPC response = ''2.0'' \<and>
              ((res_Error response = None) = (res_Result response \<noteq> VNil)))"
proof (cases "http_Method r = ''OPTIONS''")
  case True
  with assms show ?thesis by (auto simp: ServeHTTP_def Let_def)
next
  case False
  with assms have "delivered w"
    by (auto simp: ServeHTTP_def Let_def delivered_writeError delivered_handlers
        split: if_splits sum.splits dest: delivered_handleToolsCall)
  then show ?thesis by (auto simp: delivered_def split: option.splits)
qed

lemma cors_ping:
  "ServeHTTP example_platform example_decoder refusing example_handler
     \<lparr>http_Method = ''POST'', http_Body = ping_body\<rparr> 0 =
     (Inr \<lparr>w_Header = [(''Access-Control-Allow-Origin'', ''*''),
                       (''Access-Control-Allow-Methods'', ''POST, OPTIONS''),
                       (''Access-Control-Allow-Headers'', ''Content-Type, Authorization''),
                       (''Access-Control-Max-Age'', ''86400''),
                       (''Content-Type'', ''application/json'')],
           w_Status = Some 200,
           w_Body = Some \<lparr>res_JSONRPC = ''2.0'', res_ID = VFloat 1, res_Result = VObject [],
                           res_Error = None\<rparr>\<rparr>, 0)"
  by (simp add: ServeHTTP_def example_decoder_def handlePing_def writeSuccess_def Header_Set_def
      example_platform_def ping_body_def)

lemma cors_get:
  "ServeHTTP example_platform example_decoder refusing example_handler
     \<lparr>http_Method = ''GET'', http_Body = []\<rparr> 0 =
     (Inr \<lparr>w_Header = [(''Access-Control-Allow-Origin'', ''*''),
                       (''Access-Control-Allow-Methods'', ''POST, OPTIONS''),
                       (''Access-Control-Allow-Headers'', ''Content-Type, Authorization''),
                       (''Access-Control-Max-Age'', ''86400''),
                       (''Content-Type'', ''application/json'')],
           w_Status = Some 200,
           w_Body = Some \<lparr>res_JSONRPC = ''2.0'', res_ID = VNil, res_Result = VNil,
                           res_Error = Some \<lparr>err_Code = - 32600, err_Message = ''Invalid Request'',
                                              err_Data = VString ''Only POST method is allowed''\<rparr>\<rparr>\<rparr>, 0)"
  by (simp add: ServeHTTP_def writeError_def Header_Set_def example_platform_def)

theorem ServeHTTP_status_witness:
  "fst (ServeHTTP example_platform example_decoder refusing example_handler
          \<lparr>http_Method = ''POST'', http_Body = ping_body\<rparr> 0) =
     Inr \<lparr>w_Header = [(''Access-Control-Allow-Origin'', ''*''),
                      (''Access-Control-Allow-Methods'', ''POST, OPTIONS''),
                      (''Access-Control-Allow-Headers'', ''Content-Type, Authorization''),
                      (''Access-Control-Max-Age'', ''86400''),
                      (''Content-Type'', ''application/json'')],
          w_Status = Some 200,
          w_Body = Some \<lparr>res_JSONRPC = ''2.0'', res_ID = VFloat 1, res_Result = VObject [],
                          res_Error = None\<rparr>\<rparr> \<and>
   fst (ServeHTTP example_platform example_decoder refusing example_handler
          \<lparr>http_Method = ''GET'', http_Body = []\<rparr> 0) =
     Inr \<lparr>w_Header = [(''Access-Control-Allow-Origin'', ''*''),
                      (''Access-Control-Allow-Methods'', ''POST, OPTIONS''),
                      (''Access-Control-Allow-Headers'', ''Content-Type, Authorization''),
                      (''Access-Control-Max-Age'', ''86400''),
                      (''Content-Type'', ''application/json'')],
          w_Status = Some 200,
          w_Body = Some \<lparr>res_JSONRPC = ''2.0'', res_ID = VNil, res_Result = VNil,
                          res_Error = Some \<lparr>err_Code = - 32600, err_Message = ''Invalid Request'',
                                             err_Data = VString ''Only POST method is allowed''\<rparr>\<rparr>\<rparr>"
  using ServeHTTP_status[OF cors_ping] ServeHTTP_status[OF cors_get] cors_ping cors_get
  by simp

section \<open>Tool failures in the JSON-RPC envelope\<close>

text \<open>
  C1 (as amended). For a tool call whose parameters decode, whose tool is registered and whose
  arguments pass validation: when \<^verbatim>\<open>ExecuteRequest\<close> fails, and when it returns an outcome
  with a status of 400 or more, \<^verbatim>\<open>handleToolsCall\<close> writes a JSON-RPC error object with
  the code -32000 and the message \<^verbatim>\<open>Tool execution error\<close>, whose data is the text of the
  tool-level error; it writes no result.
\<close>

theorem tool_failure_is_rpc_error:
  assumes dec: "(if rpc_Params req \<noteq> VNil then decodeToolsCallParams D (rpc_Params req) else Inr ([], None))
                  = Inr (name, arguments)"
    and tool: "h_tools h name = Some tool"
    and valid: "validateParameters P tool arguments = (None, arguments')"
  shows "(\<forall>e net'. ExecuteRequest P Do tool arguments' net = (Inl (Error e), net') \<longrightarrow>
            handleToolsCall P D Do h w req net =
              (Inr (w\<lparr>w_Header := Header_Set P (w_Header w) ''Content-Type'' ''application/json'',
                      w_Status := Some 200,
                      w_Body := Some \<lparr>res_JSONRPC = ''2.0'', res_ID = rpc_ID req, res_Result = VNil,
                        res_Error = Some \<lparr>err_Code = - 32000, err_Message = ''Tool execution error'',
                          err_Data = VString (tool_Method tool @ '' '' @ tool_Endpoint tool @ '' failed: '' @ e)\<rparr>\<rparr>\<rparr>),
               net')) \<and>
         (\<forall>response net'. ExecuteRequest P Do tool arguments' net = (Inr response, net') \<longrightarrow>
            api_StatusCode response \<ge> 400 \<longrightarrow>
            handleToolsCall P D Do h w req net =
              (Inr (w\<lparr>w_Header := Header_Set P (w_Header w) ''Content-Type'' ''application/json'',
                      w_Status := Some 200,
                      w_Body := Some \<lparr>res_JSONRPC = ''2.0'', res_ID = rpc_ID req, res_Result = VNil,
                        res_Error = Some \<lparr>err_Code = - 32000, err_Message = ''Tool execution error'',
                          err_Data = VString (''HTTP Error '' @ Itoa (api_StatusCode response) @ '': '' @
                                              api_Body response)\<rparr>\<rparr>\<rparr>),
               net'))"
proof (intro conjI allI impI)
  fix e net'
  assume "ExecuteRequest P Do tool arguments' net = (Inl (Error e), net')"
  with tool valid have "ExecuteTool P Do (h_tools h) name arguments net =
      (Inr (NewToolResultError (tool_Method tool @ '' '' @ tool_Endpoint tool @ '' failed: '' @ e)), net')"
    by (simp add: ExecuteTool_def)
  with dec show "handleToolsCall P D Do h w req net =
              (Inr (w\<lparr>w_Header := Header_Set P (w_Header w) ''Content-Type'' ''application/json'',
                      w_Status := Some 200,
                      w_Body := Some \<lparr>res_JSONRPC = ''2.0'', res_ID = rpc_ID req, res_Result = VNil,
                        res_Error = Some \<lparr>err_Code = - 32000, err_Message = ''Tool execution error'',
                          err_Data = VString (tool_Method tool @ '' '' @ tool_Endpoint tool @ '' failed: '' @ e)\<rparr>\<rparr>\<rparr>),
               net')"
    by (simp add: handleToolsCall_def NewToolResultError_def errorMessage_def writeError_def)
next
  fix response net'
  assume "ExecuteRequest P Do tool arguments' net = (Inr response, net')" and "api_StatusCode response \<ge> 400"
  with tool valid have "ExecuteTool P Do (h_tools h) name arguments net =
      (Inr (NewToolResultError (''HTTP Error '' @ Itoa (api_StatusCode response) @ '': '' @ api_Body response)), net')"
    by (simp add: ExecuteTool_def convertResponseToMCPResult_def)
  with dec show "handleToolsCall P D Do h w req net =
              (Inr (w\<lparr>w_Header := Header_Set P (w_Header w) ''Content-Type'' ''application/json'',
                      w_Status := Some 200,
                      w_Body := Some \<lparr>res_JSONRPC = ''2.0'', res_ID = rpc_ID req, res_Result = VNil,
                        res_Error = Some \<lparr>err_Code = - 32000, err_Message = ''Tool execution error'',
                          err_Data = VString (''HTTP Error '' @ Itoa (api_StatusCode response) @ '': '' @
                                              api_Body response)\<rparr>\<rparr>\<rparr>),
               net')"
    by (simp add: handleToolsCall_def NewToolResultError_def errorMessage_def writeError_def)
qed

lemma item_validated:
  "validateParameters example_platform items_tool (Some [(''id'', VString ''42'')])
     = (None, Some [(''id'', VString ''42'')])"
  by (simp add: validateParameters_def items_tool_def id_param_def validateParameterValue_def map_index_def)

lemma item_refused:
  "ExecuteRequest example_platform refusing items_tool (Some [(''id'', VString ''42'')]) 0
     = (Inl (Error ''request failed after 3 attempts: connection refused''), 3)"
proof -
  have two: "tool_Retries items_tool = 2" by (simp add: items_tool_def)
  then have r: "0 \<le> tool_Retries items_tool" by simp
  have answer: "fst (refusing n req) = Inl ''connection refused''" for n req
    by (simp add: refusing_def)
  have never: "\<forall>i \<le> nat (tool_Retries items_tool). unsuccessful items_tool (fst (refusing
     (sends refusing
        \<lparr>req_Method = ''GET'',
          req_URL = \<lparr>url_Location = ''https://api.example.com/items'',
                     url_Query = [(''format'', [''json'']), (''id'', [''42''])]\<rparr>,
          req_Body = None,
          req_Header = [(''User-Agent'', ''MCP-Server/1.0.0''),
                        (''Accept'', ''application/json, text/plain, */*'')]\<rparr> i 0)
     \<lparr>req_Method = ''GET'',
          req_URL = \<lparr>url_Location = ''https://api.example.com/items'',
                     url_Query = [(''format'', [''json'']), (''id'', [''42''])]\<rparr>,
          req_Body = None,
          req_Header = [(''User-Agent'', ''MCP-Server/1.0.0''),
                        (''Accept'', ''application/json, text/plain, */*'')]\<rparr>))"
    by (simp add: unsuccessful_def answer)
  from ExecuteRequest_exhausted[where Do = refusing and net = 0, OF r refused_request never]
  show ?thesis by (simp add: two sends_refusing answer Itoa_def del: sends.simps)
qed

lemma sends_unavailable: "sends unavailable req k n = n + k"
  by (induction k arbitrary: n) (simp_all add: unavailable_def)

lemma item_unavailable:
  "ExecuteRequest example_platform unavailable items_tool (Some [(''id'', VString ''42'')]) 0
     = (Inr \<lparr>api_StatusCode = 503, api_Headers = [], api_Body = [], api_Data = VNil\<rparr>, 3)"
proof -
  have two: "tool_Retries items_tool = 2" and plain: "tool_Validation items_tool = None"
    by (simp_all add: items_tool_def)
  then have r: "0 \<le> tool_Retries items_tool" by simp
  have answer: "fst (unavailable n req) = Inr \<lparr>resp_StatusCode = 503, resp_Header = [], resp_Body = NoBody\<rparr>" for n req
    by (simp add: unavailable_def)
  have never: "\<forall>i \<le> nat (tool_Retries items_tool). unsuccessful items_tool (fst (unavailable
     (sends unavailable
        \<lparr>req_Method = ''GET'',
          req_URL = \<lparr>url_Location = ''https://api.example.com/items'',
                     url_Query = [(''format'', [''json'']), (''id'', [''42''])]\<rparr>,
          req_Body = None,
          req_Header = [(''User-Agent'', ''MCP-Server/1.0.0''),
                        (''Accept'', ''application/json, text/plain, */*'')]\<rparr> i 0)
     \<lparr>req_Method = ''GET'',
          req_URL = \<lparr>url_Location = ''https://api.example.com/items'',
                     url_Query = [(''format'', [''json'']), (''id'', [''42''])]\<rparr>,
          req_Body = None,
          req_Header = [(''User-Agent'', ''MCP-Server/1.0.0''),
                        (''Accept'', ''application/json, text/plain, */*'')]\<rparr>))"
    by (simp add: unsuccessful_def answer isSuccessStatusCode_def plain)
  from ExecuteRequest_exhausted[where Do = unavailable and net = 0, OF r refused_request never]
  show ?thesis
    by (simp add: two plain sends_unavailable answer processResponse_def parseData_def Header_Get_def
        del: sends.simps)
qed

lemma item_decoded:
  "(if rpc_Params (call_request ''get_item'' kvs) \<noteq> VNil
    then decodeToolsCallParams example_decoder (rpc_Params (call_request ''get_item'' kvs))
    else Inr ([], None)) = Inr (''get_item'', Some kvs)"
  by (simp add: call_request_def example_decoder_def)

lemma item_registered: "h_tools example_handler ''get_item'' = Some items_tool"
  by (simp add: example_handler_def)

lemma fresh_error:
  "writeError example_platform fresh_writer ident code message dat =
     \<lparr>w_Header = [(''Content-Type'', ''application/json'')], w_Status = Some 200,
      w_Body = Some \<lparr>res_JSONRPC = ''2.0'', res_ID = ident, res_Result = VNil,
                      res_Error = Some \<lparr>err_Code = code, err_Message = message, err_Data = dat\<rparr>\<rparr>\<rparr>"
  by (simp add: writeError_def fresh_writer_def Header_Set_def example_platform_def)

theorem tool_failure_is_rpc_error_witness:
  "validateParameters example_platform items_tool (Some [(''id'', VString ''42'')])
     = (None, Some [(''id'', VString ''42'')]) \<and>
   ExecuteRequest example_platform refusing items_tool (Some [(''id'', VString ''42'')]) 0
     = (Inl (Error ''request failed after 3 attempts: connection refused''), 3) \<and>
   fst (handleToolsCall example_platform example_decoder refusing example_handler fresh_writer
     (call_request ''get_item'' [(''id'', VString ''42'')]) 0) =
     Inr \<lparr>w_Header = [(''Content-Type'', ''application/json'')], w_Status = Some 200,
           w_Body = Some \<lparr>res_JSONRPC = ''2.0'', res_ID = VFloat 1, res_Result = VNil,
             res_Error = Some \<lparr>err_Code = - 32000, err_Message = ''Tool execution error'',
               err_Data = VString ''GET https://api.example.com/items failed: request failed after 3 attempts: connection refused''\<rparr>\<rparr>\<rparr> \<and>
   ExecuteRequest example_platform unavailable items_tool (Some [(''id'', VString ''42'')]) 0
     = (Inr \<lparr>api_StatusCode = 503, api_Headers = [], api_Body = [], api_Data = VNil\<rparr>, 3) \<and>
   fst (handleToolsCall example_platform example_decoder unavailable example_handler fresh_writer
     (call_request ''get_item'' [(''id'', VString ''42'')]) 0) =
     Inr \<lparr>w_Header = [(''Content-Type'', ''application/json'')], w_Status = Some 200,
           w_Body = Some \<lparr>res_JSONRPC = ''2.0'', res_ID = VFloat 1, res_Result = VNil,
             res_Error = Some \<lparr>err_Code = - 32000, err_Message = ''Tool execution error'',
               err_Data = VString ''HTTP Error 503: ''\<rparr>\<rparr>\<rparr>"
proof -
  note a = tool_failure_is_rpc_error[OF item_decoded item_registered item_validated,
      where Do = refusing and w = fresh_writer and net = 0]
  note b = tool_failure_is_rpc_error[OF item_decoded item_registered item_validated,
      where Do = unavailable and w = fresh_writer and net = 0]
  from a item_refused
  have 1: "handleToolsCall example_platform example_decoder refusing example_handler fresh_writer
             (call_request ''get_item'' [(''id'', VString ''42'')]) 0 =
           (Inr (fresh_writer\<lparr>w_Header := Header_Set example_platform (w_Header fresh_writer) ''Content-Type'' ''application/json'',
                      w_Status := Some 200,
                      w_Body := Some \<lparr>res_JSONRPC = ''2.0'', res_ID = rpc_ID (call_request ''get_item'' [(''id'', VString ''42'')]), res_Result = VNil,
                        res_Error = Some \<lparr>err_Code = - 32000, err_Message = ''Tool execution error'',
                          err_Data = VString (tool_Method items_tool @ '' '' @ tool_Endpoint items_tool @ '' failed: '' @ ''request failed after 3 attempts: connection refused'')\<rparr>\<rparr>\<rparr>), 3)"
    by blast
  have ge: "api_StatusCode \<lparr>api_StatusCode = 503, api_Headers = [], api_Body = [], api_Data = VNil\<rparr> \<ge> 400"
    by simp
  from b item_unavailable ge
  have 2: "handleToolsCall example_platform example_decoder unavailable example_handler fresh_writer
             (call_request ''get_item'' [(''id'', VString ''42'')]) 0 =
           (Inr (fresh_writer\<lparr>w_Header := Header_Set example_platform (w_Header fresh_writer) ''Content-Type'' ''application/json'',
                      w_Status := Some 200,
                      w_Body := Some \<lparr>res_JSONRPC = ''2.0'', res_ID = rpc_ID (call_request ''get_item'' [(''id'', VString ''42'')]), res_Result = VNil,
                        res_Error = Some \<lparr>err_Code = - 32000, err_Message = ''Tool execution error'',
                          err_Data = VString (''HTTP Error '' @ Itoa (api_StatusCode \<lparr>api_StatusCode = 503, api_Headers = [], api_Body = [], api_Data = VNil\<rparr>) @ '': '' @
                                              api_Body \<lparr>api_StatusCode = 503, api_Headers = [], api_Body = [], api_Data = VNil\<rparr>)\<rparr>\<rparr>\<rparr>), 3)"
    by blast
  from 1 2 item_validated item_refused item_unavailable show ?thesis
    by (simp add: fresh_writer_def Header_Set_def example_platform_def items_tool_def Itoa_def call_request_def)
qed

text \<open>
  C1 as stated fails: a call whose upstream refuses every connection, and one whose upstream
  answers 503, are both answered with a JSON-RPC error object, not with a result.
\<close>

theorem tool_failure_returns_error_object:
  "handleToolsCall example_platform example_decoder refusing example_handler fresh_writer
     (call_request ''get_item'' [(''id'', VString ''42'')]) 0 =
     (Inr \<lparr>w_Header = [(''Content-Type'', ''application/json'')], w_Status = Some 200,
           w_Body = Some \<lparr>res_JSONRPC = ''2.0'', res_ID = VFloat 1, res_Result = VNil,
             res_Error = Some \<lparr>err_Code = - 32000, err_Message = ''Tool execution error'',
               err_Data = VString ''GET https://api.example.com/items failed: request failed after 3 attempts: connection refused''\<rparr>\<rparr>\<rparr>,
      3) \<and>
   handleToolsCall example_platform example_decoder unavailable example_handler fresh_writer
     (call_request ''get_item'' [(''id'', VString ''42'')]) 0 =
     (Inr \<lparr>w_Header = [(''Content-Type'', ''application/json'')], w_Status = Some 200,
           w_Body = Some \<lparr>res_JSONRPC = ''2.0'', res_ID = VFloat 1, res_Result = VNil,
             res_Error = Some \<lparr>err_Code = - 32000, err_Message = ''Tool execution error'',
               err_Data = VString ''HTTP Error 503: ''\<rparr>\<rparr>\<rparr>,
      3)"
proof -
  have "ExecuteTool example_platform refusing (h_tools example_handler) ''get_item'' (Some [(''id'', VString ''42'')]) 0
          = (Inr (NewToolResultError (tool_Method items_tool @ '' '' @ tool_Endpoint items_tool @
                    '' failed: request failed after 3 attempts: connection refused'')), 3)"
    by (simp add: ExecuteTool_def item_registered item_validated item_refused)
  then have 1: "ExecuteTool example_platform refusing (h_tools example_handler) ''get_item'' (Some [(''id'', VString ''42'')]) 0
          = (Inr (NewToolResultError
                    ''GET https://api.example.com/items failed: request failed after 3 attempts: connection refused''), 3)"
    by (simp add: items_tool_def)
  have 2: "ExecuteTool example_platform unavailable (h_tools example_handler) ''get_item'' (Some [(''id'', VString ''42'')]) 0
          = (Inr (NewToolResultError ''HTTP Error 503: ''), 3)"
    by (simp add: ExecuteTool_def item_registered item_validated item_unavailable
        convertResponseToMCPResult_def Itoa_def)
  show ?thesis
    by (simp add: handleToolsCall_def call_request_def example_decoder_def 1 2 NewToolResultError_def
        errorMessage_def fresh_error)
qed

section \<open>A missing required parameter\<close>







end
